theory Spec2Isabelle
  imports Main
begin

text \<open>
  The authentication and session engine of the CraftConnect API (registration, password
  and OTP login, refresh-token rotation), the portfolio cap and the rate limiter of the
  authentication routes, as functions on an explicit store, with the properties the
  specification states about them.
\<close>

section \<open>Data model (types/index.ts, types/auth.types.ts)\<close>

text \<open>
  Timestamps are stored by the source as ISO strings produced by \<open>toISOString()\<close> and read
  back with \<open>new Date(...)\<close>; the model keeps the millisecond value (\<open>getTime()\<close>) as an
  \<open>int\<close>. A nullable field is an \<open>option\<close>. Record fields carry a prefix because
  several interfaces share field names (\<open>id\<close>, \<open>userId\<close>, \<open>createdAt\<close>).
\<close>

datatype Role = PROVIDER | CUSTOMER | ADMIN

datatype OtpType = LOGIN | REGISTER | RESET_PASSWORD

record User =
  u_id :: string
  u_email :: "string option"
  u_phoneNumber :: "string option"
  u_passwordHash :: "string option"
  u_role :: Role
  u_isVerified :: bool
  u_createdAt :: int
  u_updatedAt :: int
  u_lastLoginAt :: "int option"

text \<open>Of a Provider, the modelled services read only \<open>id\<close> and \<open>userId\<close>.\<close>

record Provider =
  p_id :: string
  p_userId :: string

record PortfolioItem =
  pi_id :: string
  pi_providerId :: string
  pi_imageUrl :: string
  pi_description :: "string option"
  pi_displayOrder :: int
  pi_createdAt :: int
  pi_updatedAt :: int
  pi_title :: string
  pi_category :: "string option"

record CreatePortfolioItemInput =
  in_title :: string
  in_category :: "string option"
  in_imgUrl :: string
  in_description :: "string option"

record Otp =
  o_id :: string
  o_userId :: string
  o_code :: string
  o_type :: OtpType
  o_expiresAt :: int
  o_createdAt :: int
  o_verified :: bool
  o_attempts :: int

record Session =
  s_id :: string
  s_userId :: string
  s_refreshToken :: string
  s_userAgent :: "string option"
  s_ipAddress :: "string option"
  s_createdAt :: int
  s_expiresAt :: int

record JwtPayload =
  jp_userId :: string
  jp_role :: Role

record TokenPair =
  accessToken :: string
  refreshToken_of :: string

record AuthUser =
  au_id :: string
  au_email :: "string option"
  au_role :: Role
  au_phoneNumber :: "string option"
  au_isVerified :: bool

record AuthResponse =
  tokens :: TokenPair
  user :: AuthUser
  hasProvider :: bool

section \<open>Errors (errors/AppError.ts)\<close>

record AppError =
  message :: string
  statusCode :: nat
  code :: string

definition BadRequestError :: "string \<Rightarrow> AppError" where
  "BadRequestError msg = \<lparr>message = msg, statusCode = 400, code = ''BAD_REQUEST''\<rparr>"

definition UnauthorizedError :: "string \<Rightarrow> AppError" where
  "UnauthorizedError msg = \<lparr>message = msg, statusCode = 401, code = ''UNAUTHORIZED''\<rparr>"

definition NotFoundError :: "string \<Rightarrow> AppError" where
  "NotFoundError resource =
     \<lparr>message = resource @ '' not found'', statusCode = 404, code = ''NOT_FOUND''\<rparr>"

definition ConflictError :: "string \<Rightarrow> AppError" where
  "ConflictError msg = \<lparr>message = msg, statusCode = 409, code = ''CONFLICT''\<rparr>"

definition RateLimitError :: "string \<Rightarrow> AppError" where
  "RateLimitError msg = \<lparr>message = msg, statusCode = 429, code = ''RATE_LIMIT_EXCEEDED''\<rparr>"

section \<open>Record store (services/database.service.ts)\<close>

text \<open>
  Each collection is the cached array of the source, in insertion order: \<open>find\<close> and
  \<open>findIndex\<close> return the first match, \<open>push\<close> appends.
\<close>

record database =
  users :: "User list"
  providers :: "Provider list"
  portfolios :: "PortfolioItem list"
  otps :: "Otp list"
  sessions :: "Session list"

definition db_findById :: "('a \<Rightarrow> string) \<Rightarrow> string \<Rightarrow> 'a list \<Rightarrow> 'a option" where
  "db_findById idf i records = List.find (\<lambda>r. idf r = i) records"

definition db_findWhere :: "('a \<Rightarrow> bool) \<Rightarrow> 'a list \<Rightarrow> 'a list" where
  "db_findWhere predicate records = filter predicate records"

definition db_findOne :: "('a \<Rightarrow> bool) \<Rightarrow> 'a list \<Rightarrow> 'a option" where
  "db_findOne predicate records = List.find predicate records"

definition db_create :: "'a \<Rightarrow> 'a list \<Rightarrow> 'a list" where
  "db_create r records = records @ [r]"

text \<open>\<open>update\<close> merges the changes into the first record whose id matches, if any.\<close>

fun db_update :: "('a \<Rightarrow> string) \<Rightarrow> string \<Rightarrow> ('a \<Rightarrow> 'a) \<Rightarrow> 'a list \<Rightarrow> 'a list" where
  "db_update idf i updates [] = []"
| "db_update idf i updates (r # records) =
     (if idf r = i then updates r # records else r # db_update idf i updates records)"

text \<open>\<open>delete\<close> splices out the first record whose id matches, if any.\<close>

fun db_delete :: "('a \<Rightarrow> string) \<Rightarrow> string \<Rightarrow> 'a list \<Rightarrow> 'a list" where
  "db_delete idf i [] = []"
| "db_delete idf i (r # records) =
     (if idf r = i then records else r # db_delete idf i records)"

definition db_deleteWhere :: "('a \<Rightarrow> bool) \<Rightarrow> 'a list \<Rightarrow> 'a list" where
  "db_deleteWhere predicate records = filter (\<lambda>r. \<not> predicate r) records"

definition db_count :: "('a \<Rightarrow> bool) \<Rightarrow> 'a list \<Rightarrow> int" where
  "db_count predicate records = int (length (filter predicate records))"

section \<open>The outside world of one call\<close>

text \<open>
  What a call obtains from outside the repository is an explicit argument: the clock, the
  UUIDs drawn by \<open>generateId()\<close> (one per kind of record a call can create), bcrypt,
  jsonwebtoken, the random OTP digits and the configured OTP lifetime. Every
  \<open>new Date()\<close> and \<open>Date.now()\<close> of one call reads the same instant \<open>now\<close>; the
  source reads the clock again after each awaited write, a few milliseconds later.
\<close>

record world =
  now :: int
  generateId_user :: string
  generateId_session :: string
  generateId_otp :: string
  generateId_item :: string
  hashPassword :: "string \<Rightarrow> string"
  comparePassword :: "string \<Rightarrow> string \<Rightarrow> bool"
  generateTokenPair :: "string \<Rightarrow> Role \<Rightarrow> TokenPair"
  verifyRefreshToken :: "string \<Rightarrow> JwtPayload option"
  generateOtp :: string
  otp_expiryMinutes :: int

section \<open>OTP utilities (utils/otp.ts)\<close>

text \<open>
  \<open>getOtpExpiry\<close>: the current time plus the configured number of minutes. The source
  adds them with \<open>setMinutes\<close> on the local wall clock; the model adds them as
  milliseconds, which is the same instant except across a daylight-saving change.
\<close>

definition getOtpExpiry :: "world \<Rightarrow> int" where
  "getOtpExpiry w = now w + otp_expiryMinutes w * 60000"

text \<open>
  \<open>isOtpExpired\<close>: \<open>new Date() > expiry\<close>. The argument is the time value of the parsed
  expiry date; \<open>None\<close> is JavaScript's Invalid Date (time value NaN), against which every
  comparison is false.
\<close>

definition isOtpExpired :: "int \<Rightarrow> int option \<Rightarrow> bool" where
  "isOtpExpired nowMs expiry = (case expiry of None \<Rightarrow> False | Some e \<Rightarrow> nowMs > e)"

section \<open>Authentication service (services/auth.service.ts)\<close>

text \<open>
  JavaScript truthiness of an optional string: \<open>undefined\<close>, \<open>null\<close> and the empty
  string are falsy.
\<close>

definition truthy :: "string option \<Rightarrow> bool" where
  "truthy x = (case x of None \<Rightarrow> False | Some v \<Rightarrow> v \<noteq> [])"

text \<open>\<open>x || null\<close> on an optional string.\<close>

definition or_null :: "string option \<Rightarrow> string option" where
  "or_null x = (if truthy x then x else None)"

text \<open>\<open>30 * 24 * 60 * 60 * 1000\<close>: thirty days in milliseconds.\<close>

definition thirtyDays :: int where
  "thirtyDays = 30 * 24 * 60 * 60 * 1000"

definition createSession ::
  "world \<Rightarrow> string \<Rightarrow> string \<Rightarrow> string option \<Rightarrow> string option \<Rightarrow> database
     \<Rightarrow> database \<times> Session" where
  "createSession w userId refreshTok userAgent ipAddress s =
     (let session = \<lparr>s_id = generateId_session w, s_userId = userId,
                       s_refreshToken = refreshTok,
                       s_userAgent = or_null userAgent, s_ipAddress = or_null ipAddress,
                       s_createdAt = now w, s_expiresAt = now w + thirtyDays\<rparr>
      in (s\<lparr>sessions := db_create session (sessions s)\<rparr>, session))"

definition sendEmailOtp ::
  "world \<Rightarrow> string \<Rightarrow> string \<Rightarrow> OtpType \<Rightarrow> database \<Rightarrow> database \<times> (string \<times> string)" where
  "sendEmailOtp w userId email ty s =
     (let otpRecord = \<lparr>o_id = generateId_otp w, o_userId = userId, o_code = generateOtp w,
                         o_type = ty, o_expiresAt = getOtpExpiry w, o_createdAt = now w,
                         o_verified = False, o_attempts = 0\<rparr>
      in (s\<lparr>otps := db_create otpRecord (otps s)\<rparr>, (''OTP sent to email'', o_id otpRecord)))"

definition authUser :: "User \<Rightarrow> AuthUser" where
  "authUser u = \<lparr>au_id = u_id u, au_email = u_email u, au_role = u_role u,
                  au_phoneNumber = u_phoneNumber u, au_isVerified = u_isVerified u\<rparr>"

definition registerWithEmail ::
  "world \<Rightarrow> string \<Rightarrow> string \<Rightarrow> database \<Rightarrow> database \<times> (AppError + AuthResponse)" where
  "registerWithEmail w email password s =
     (case db_findOne (\<lambda>u. u_email u = Some email) (users s) of
        Some existingUser \<Rightarrow> (s, Inl (ConflictError ''Email already registered''))
      | None \<Rightarrow>
          (let passwordHash = hashPassword w password;
               newUser = \<lparr>u_id = generateId_user w, u_email = Some email,
                           u_phoneNumber = None, u_passwordHash = Some passwordHash,
                           u_role = PROVIDER, u_isVerified = False,
                           u_createdAt = now w, u_updatedAt = now w,
                           u_lastLoginAt = Some (now w)\<rparr>;
               s1 = s\<lparr>users := db_create newUser (users s)\<rparr>;
               toks = generateTokenPair w (u_id newUser) (u_role newUser);
               s2 = fst (createSession w (u_id newUser) (refreshToken_of toks) None None s1);
               s3 = fst (sendEmailOtp w (u_id newUser) email REGISTER s2);
               provider = db_findOne (\<lambda>p. p_userId p = u_id newUser) (providers s3)
           in (s3, Inr \<lparr>tokens = toks, user = authUser newUser,
                         hasProvider = (provider \<noteq> None)\<rparr>)))"

definition loginWithEmail ::
  "world \<Rightarrow> string \<Rightarrow> string \<Rightarrow> database \<Rightarrow> database \<times> (AppError + AuthResponse)" where
  "loginWithEmail w email password s =
     (case db_findOne (\<lambda>u. u_email u = Some email) (users s) of
        None \<Rightarrow> (s, Inl (UnauthorizedError ''Invalid email or password''))
      | Some u \<Rightarrow>
         (case or_null (u_passwordHash u) of
            None \<Rightarrow> (s, Inl (UnauthorizedError ''Please login with phone OTP''))
          | Some storedHash \<Rightarrow>
              if \<not> comparePassword w password storedHash
              then (s, Inl (UnauthorizedError ''Invalid email or password''))
              else
                (let s1 = s\<lparr>users := db_update u_id (u_id u)
                                          (\<lambda>r. r\<lparr>u_lastLoginAt := Some (now w)\<rparr>) (users s)\<rparr>;
                     toks = generateTokenPair w (u_id u) (u_role u);
                     s2 = fst (createSession w (u_id u) (refreshToken_of toks) None None s1);
                     provider = db_findOne (\<lambda>p. p_userId p = u_id u) (providers s2)
                 in (s2, Inr \<lparr>tokens = toks, user = authUser u,
                               hasProvider = (provider \<noteq> None)\<rparr>))))"

definition sendPhoneOtp ::
  "world \<Rightarrow> string \<Rightarrow> database \<Rightarrow> database \<times> (string \<times> string)" where
  "sendPhoneOtp w phone s =
     (let found = db_findOne (\<lambda>u. u_phoneNumber u = Some phone) (users s);
          newUser = \<lparr>u_id = generateId_user w, u_email = None, u_phoneNumber = Some phone,
                      u_passwordHash = None, u_role = PROVIDER, u_isVerified = False,
                      u_createdAt = now w, u_updatedAt = now w, u_lastLoginAt = None\<rparr>;
          u = (case found of Some x \<Rightarrow> x | None \<Rightarrow> newUser);
          s1 = (case found of Some x \<Rightarrow> s
                | None \<Rightarrow> s\<lparr>users := db_create newUser (users s)\<rparr>);
          otpRecord = \<lparr>o_id = generateId_otp w, o_userId = u_id u, o_code = generateOtp w,
                        o_type = LOGIN, o_expiresAt = getOtpExpiry w, o_createdAt = now w,
                        o_verified = False, o_attempts = 0\<rparr>
      in (s1\<lparr>otps := db_create otpRecord (otps s1)\<rparr>,
          (''OTP sent successfully'', o_id otpRecord)))"

text \<open>The identifier object \<open>{ phone?: string; email?: string }\<close> of \<open>verifyOtp\<close>.\<close>

record Identifier =
  id_phone :: "string option"
  id_email :: "string option"

text \<open>Lines 251 to 257: the phone is tried first, the email only when the phone is falsy.\<close>

definition resolveUser :: "Identifier \<Rightarrow> database \<Rightarrow> User option" where
  "resolveUser ident s =
     (if truthy (id_phone ident)
      then db_findOne (\<lambda>u. u_phoneNumber u = id_phone ident) (users s)
      else if truthy (id_email ident)
      then db_findOne (\<lambda>u. u_email u = id_email ident) (users s)
      else None)"

text \<open>
  Lines 264 to 272: the user's unverified OTPs, sorted by creation time, newest first
  (\<open>Array.prototype.sort\<close> is stable, as \<open>sort_key\<close> is), and the first of them.
\<close>

definition unverifiedOtps :: "string \<Rightarrow> database \<Rightarrow> Otp list" where
  "unverifiedOtps userId s =
     db_findWhere (\<lambda>r. o_userId r = userId \<and> \<not> o_verified r) (otps s)"

definition latestOtp :: "string \<Rightarrow> database \<Rightarrow> Otp option" where
  "latestOtp userId s =
     (case sort_key (\<lambda>r. - o_createdAt r) (unverifiedOtps userId s) of
        [] \<Rightarrow> None
      | first # rest \<Rightarrow> Some first)"

definition verifyOtp ::
  "world \<Rightarrow> Identifier \<Rightarrow> string \<Rightarrow> database \<Rightarrow> database \<times> (AppError + AuthResponse)" where
  "verifyOtp w ident otpCode s =
     (case resolveUser ident s of
        None \<Rightarrow> (s, Inl (NotFoundError ''User''))
      | Some u \<Rightarrow>
         (case latestOtp (u_id u) s of
            None \<Rightarrow> (s, Inl (BadRequestError ''No OTP found. Please request a new one.''))
          | Some latest \<Rightarrow>
              if isOtpExpired (now w) (Some (o_expiresAt latest))
              then (s, Inl (BadRequestError ''OTP has expired. Please request a new one.''))
              else if o_attempts latest \<ge> 3
              then (s, Inl (BadRequestError
                              ''Too many failed attempts. Please request a new OTP.''))
              else if o_code latest \<noteq> otpCode
              then (s\<lparr>otps := db_update o_id (o_id latest)
                                  (\<lambda>r. r\<lparr>o_attempts := o_attempts latest + 1\<rparr>) (otps s)\<rparr>,
                    Inl (BadRequestError ''Invalid OTP''))
              else
                (let s1 = s\<lparr>otps := db_update o_id (o_id latest)
                                         (\<lambda>r. r\<lparr>o_verified := True\<rparr>) (otps s)\<rparr>;
                     s2 = s1\<lparr>users := db_update u_id (u_id u)
                                  (\<lambda>r. r\<lparr>u_isVerified := True, u_lastLoginAt := Some (now w),
                                          u_updatedAt := now w\<rparr>) (users s1)\<rparr>;
                     toks = generateTokenPair w (u_id u) (u_role u);
                     s3 = fst (createSession w (u_id u) (refreshToken_of toks) None None s2);
                     provider = db_findOne (\<lambda>p. p_userId p = u_id u) (providers s3)
                 in (s3, Inr \<lparr>tokens = toks, user = (authUser u)\<lparr>au_isVerified := True\<rparr>,
                               hasProvider = (provider \<noteq> None)\<rparr>))))"

definition refreshToken ::
  "world \<Rightarrow> string \<Rightarrow> database \<Rightarrow> database \<times> (AppError + TokenPair)" where
  "refreshToken w tok s =
     (case verifyRefreshToken w tok of
        None \<Rightarrow> (s, Inl (UnauthorizedError ''Invalid refresh token''))
      | Some decoded \<Rightarrow>
         (case db_findOne (\<lambda>x. s_refreshToken x = tok) (sessions s) of
            None \<Rightarrow> (s, Inl (UnauthorizedError ''Session not found''))
          | Some session \<Rightarrow>
              if s_expiresAt session < now w
              then (s\<lparr>sessions := db_delete s_id (s_id session) (sessions s)\<rparr>,
                    Inl (UnauthorizedError ''Session expired. Please login again.''))
              else
                (case db_findById u_id (jp_userId decoded) (users s) of
                   None \<Rightarrow> (s, Inl (UnauthorizedError ''User not found''))
                 | Some u \<Rightarrow>
                     (let toks = generateTokenPair w (u_id u) (u_role u)
                      in (s\<lparr>sessions := db_update s_id (s_id session)
                                (\<lambda>r. r\<lparr>s_refreshToken := refreshToken_of toks,
                                        s_expiresAt := now w + thirtyDays\<rparr>) (sessions s)\<rparr>,
                          Inr toks)))))"

definition logout :: "string \<Rightarrow> database \<Rightarrow> database" where
  "logout tok s = s\<lparr>sessions := db_deleteWhere (\<lambda>x. s_refreshToken x = tok) (sessions s)\<rparr>"

definition logoutAll :: "string \<Rightarrow> database \<Rightarrow> database" where
  "logoutAll userId s = s\<lparr>sessions := db_deleteWhere (\<lambda>x. s_userId x = userId) (sessions s)\<rparr>"

text \<open>
  The cleanup jobs compare ISO strings; on \<open>toISOString()\<close> output that is the order of the
  time values for every year up to 9999.
\<close>

definition cleanupExpiredOtps :: "world \<Rightarrow> database \<Rightarrow> database" where
  "cleanupExpiredOtps w s = s\<lparr>otps := db_deleteWhere (\<lambda>r. o_expiresAt r < now w) (otps s)\<rparr>"

definition cleanupExpiredSessions :: "world \<Rightarrow> database \<Rightarrow> database" where
  "cleanupExpiredSessions w s =
     s\<lparr>sessions := db_deleteWhere (\<lambda>x. s_expiresAt x < now w) (sessions s)\<rparr>"

section \<open>Rendering numbers in template strings\<close>

text \<open>The decimal text JavaScript produces when an integer is spliced into a template.\<close>

fun show_nat :: "nat \<Rightarrow> string" where
  "show_nat n =
     (if n < 10 then [''0123456789'' ! n]
      else show_nat (n div 10) @ [''0123456789'' ! (n mod 10)])"

declare show_nat.simps [simp del]

definition show_int :: "int \<Rightarrow> string" where
  "show_int i = (if i < 0 then ''-'' @ show_nat (nat (- i)) else show_nat (nat i))"

section \<open>Portfolio service (services/portfolio.service.ts)\<close>

definition MAX_PORTFOLIO_ITEMS :: int where
  "MAX_PORTFOLIO_ITEMS = 10"

definition getProviderByUserId :: "string \<Rightarrow> database \<Rightarrow> AppError + Provider" where
  "getProviderByUserId userId s =
     (case db_findOne (\<lambda>p. p_userId p = userId) (providers s) of
        None \<Rightarrow> Inl (NotFoundError ''Provider profile. Please create one first.'')
      | Some provider \<Rightarrow> Inr provider)"

text \<open>\<open>PortfolioService.create\<close>.\<close>

definition PortfolioService_create ::
  "world \<Rightarrow> string \<Rightarrow> CreatePortfolioItemInput \<Rightarrow> database
     \<Rightarrow> database \<times> (AppError + PortfolioItem)" where
  "PortfolioService_create w userId input s =
     (case getProviderByUserId userId s of
        Inl e \<Rightarrow> (s, Inl e)
      | Inr provider \<Rightarrow>
          (let existingCount =
                 db_count (\<lambda>item. pi_providerId item = p_id provider) (portfolios s)
           in if existingCount \<ge> MAX_PORTFOLIO_ITEMS
              then (s, Inl (BadRequestError
                              (''Maximum '' @ show_int MAX_PORTFOLIO_ITEMS
                                 @ '' portfolio items allowed'')))
              else
                (let item = \<lparr>pi_id = generateId_item w, pi_providerId = p_id provider,
                              pi_imageUrl = in_imgUrl input,
                              pi_description =
                                Some (case or_null (in_description input) of
                                        None \<Rightarrow> [] | Some d \<Rightarrow> d),
                              pi_displayOrder = existingCount,
                              pi_createdAt = now w, pi_updatedAt = now w,
                              pi_title = in_title input,
                              pi_category = or_null (in_category input)\<rparr>
                 in (s\<lparr>portfolios := db_create item (portfolios s)\<rparr>, Inr item))))"

section \<open>Rate limiting (middleware/rateLimiter.middleware.ts)\<close>

record RateLimitEntry =
  rl_count :: int
  rl_resetTime :: int

type_synonym RateLimitStore = "string \<rightharpoonup> RateLimitEntry"

text \<open>The response headers the limiter sets; \<open>Retry-After\<close> only on rejection.\<close>

record RateLimitHeaders =
  X_RateLimit_Limit :: int
  X_RateLimit_Remaining :: int
  X_RateLimit_Reset :: int
  Retry_After :: "int option"

text \<open>\<open>Math.ceil(a / b)\<close> for an integer \<open>a\<close> and a positive integer \<open>b\<close>.\<close>

definition ceil_div :: "int \<Rightarrow> int \<Rightarrow> int" where
  "ceil_div a b = - ((- a) div b)"

text \<open>
  \<open>authRateLimiter\<close>, given the client IP (the value of \<open>getClientIp(req)\<close>) and the reading
  of \<open>Date.now()\<close>. The result is the store after the request, the headers set, and either
  the thrown error or \<open>next()\<close>.
\<close>

definition authRateLimiter ::
  "string \<Rightarrow> int \<Rightarrow> RateLimitStore
     \<Rightarrow> RateLimitStore \<times> RateLimitHeaders \<times> (AppError + unit)" where
  "authRateLimiter ip nowMs store =
     (let key = ''auth:'' @ ip;
          windowMs = 15 * 60 * 1000;
          maxRequests = 10;
          entry = (case store key of
                     None \<Rightarrow> \<lparr>rl_count = 1, rl_resetTime = nowMs + windowMs\<rparr>
                   | Some e \<Rightarrow>
                       if rl_resetTime e < nowMs
                       then \<lparr>rl_count = 1, rl_resetTime = nowMs + windowMs\<rparr>
                       else e\<lparr>rl_count := rl_count e + 1\<rparr>);
          store1 = store(key \<mapsto> entry);
          headers = \<lparr>X_RateLimit_Limit = maxRequests,
                      X_RateLimit_Remaining = max 0 (maxRequests - rl_count entry),
                      X_RateLimit_Reset = ceil_div (rl_resetTime entry) 1000,
                      Retry_After = None\<rparr>
      in if rl_count entry > maxRequests
         then (let retryAfter = ceil_div (rl_resetTime entry - nowMs) 1000
               in (store1, headers\<lparr>Retry_After := Some retryAfter\<rparr>,
                   Inl (RateLimitError
                          (''Too many login attempts. Please try again in ''
                             @ show_int (ceil_div retryAfter 60) @ '' minutes.''))))
         else (store1, headers, Inr ()))"

text \<open>Successive requests of one client, at the given readings of the clock.\<close>

fun authRequests ::
  "string \<Rightarrow> int list \<Rightarrow> RateLimitStore \<Rightarrow> (RateLimitHeaders \<times> (AppError + unit)) list" where
  "authRequests ip [] store = []"
| "authRequests ip (t # ts) store =
     (case authRateLimiter ip t store of
        (store1, response) \<Rightarrow> response # authRequests ip ts store1)"

section \<open>Sequences of calls\<close>

text \<open>
  The public methods of \<open>AuthService\<close> that change the store, as data, so that a property
  can be stated over every later sequence of calls. No other service of the repository
  touches the \<open>otps\<close> or \<open>sessions\<close> collections.
\<close>

datatype call =
    RegisterWithEmail string string
  | LoginWithEmail string string
  | SendPhoneOtp string
  | SendEmailOtp string string OtpType
  | VerifyOtp Identifier string
  | RefreshToken string
  | Logout string
  | LogoutAll string
  | CleanupExpiredOtps
  | CleanupExpiredSessions

fun exec :: "world \<Rightarrow> call \<Rightarrow> database \<Rightarrow> database" where
  "exec w (RegisterWithEmail em pw) s = fst (registerWithEmail w em pw s)"
| "exec w (LoginWithEmail em pw) s = fst (loginWithEmail w em pw s)"
| "exec w (SendPhoneOtp ph) s = fst (sendPhoneOtp w ph s)"
| "exec w (SendEmailOtp userId em ty) s = fst (sendEmailOtp w userId em ty s)"
| "exec w (VerifyOtp ident otpCode) s = fst (verifyOtp w ident otpCode s)"
| "exec w (RefreshToken tok) s = fst (refreshToken w tok s)"
| "exec w (Logout tok) s = logout tok s"
| "exec w (LogoutAll userId) s = logoutAll userId s"
| "exec w CleanupExpiredOtps s = cleanupExpiredOtps w s"
| "exec w CleanupExpiredSessions s = cleanupExpiredSessions w s"

text \<open>Each call of a sequence comes with the outside world it runs in.\<close>

fun run :: "(world \<times> call) list \<Rightarrow> database \<Rightarrow> database" where
  "run [] s = s"
| "run ((w, c) # cs) s = run cs (exec w c s)"

section \<open>A concrete store and world\<close>

text \<open>
  Alice registered with email and password and has two sessions, the older one past its
  expiry; Bob is a phone-only account with a pending OTP; Carol's record has an email
  but no password hash, and her pending OTP has used up its attempts. Alice's provider
  profile has ten portfolio items, Bob's has two.
\<close>

definition alice :: User where
  "alice = \<lparr>u_id = ''user-1'', u_email = Some ''a@b.com'', u_phoneNumber = None,
             u_passwordHash = Some ''bcrypt:Secure123'', u_role = PROVIDER,
             u_isVerified = False, u_createdAt = 1700000000000,
             u_updatedAt = 1700000000000, u_lastLoginAt = Some 1700000000000\<rparr>"

definition bob :: User where
  "bob = \<lparr>u_id = ''user-2'', u_email = None, u_phoneNumber = Some ''9876543210'',
           u_passwordHash = None, u_role = PROVIDER,
           u_isVerified = False, u_createdAt = 1700000100000,
           u_updatedAt = 1700000100000, u_lastLoginAt = None\<rparr>"

definition carol :: User where
  "carol = \<lparr>u_id = ''user-3'', u_email = Some ''c@d.com'', u_phoneNumber = Some ''9123456780'',
             u_passwordHash = None, u_role = PROVIDER,
             u_isVerified = False, u_createdAt = 1700000200000,
             u_updatedAt = 1700000200000, u_lastLoginAt = None\<rparr>"

definition bobOtp :: Otp where
  "bobOtp = \<lparr>o_id = ''otp-1'', o_userId = ''user-2'', o_code = ''123456'', o_type = LOGIN,
              o_expiresAt = 1700001100000, o_createdAt = 1700000500000,
              o_verified = False, o_attempts = 0\<rparr>"

definition carolOtp :: Otp where
  "carolOtp = \<lparr>o_id = ''otp-2'', o_userId = ''user-3'', o_code = ''222222'', o_type = LOGIN,
                o_expiresAt = 1700001100000, o_createdAt = 1700000500000,
                o_verified = False, o_attempts = 3\<rparr>"

definition staleSession :: Session where
  "staleSession = \<lparr>s_id = ''session-0'', s_userId = ''user-1'',
                    s_refreshToken = ''v0.refresh.user-1'',
                    s_userAgent = None, s_ipAddress = None,
                    s_createdAt = 1697000000000, s_expiresAt = 1699592000000\<rparr>"

definition liveSession :: Session where
  "liveSession = \<lparr>s_id = ''session-1'', s_userId = ''user-1'',
                   s_refreshToken = ''v1.refresh.user-1'',
                   s_userAgent = None, s_ipAddress = None,
                   s_createdAt = 1700000000000, s_expiresAt = 1702592000000\<rparr>"

definition exampleItem :: "string \<Rightarrow> string \<Rightarrow> int \<Rightarrow> PortfolioItem" where
  "exampleItem providerId n k =
     \<lparr>pi_id = ''item-'' @ providerId @ ''-'' @ n, pi_providerId = providerId,
      pi_imageUrl = ''https://img.example/'' @ n, pi_description = Some [],
      pi_displayOrder = k, pi_createdAt = 1700000300000, pi_updatedAt = 1700000300000,
      pi_title = ''Work '' @ n, pi_category = None\<rparr>"

definition exampleDb :: database where
  "exampleDb =
     \<lparr>users = [alice, bob, carol],
      providers = [\<lparr>p_id = ''prov-1'', p_userId = ''user-1''\<rparr>,
                   \<lparr>p_id = ''prov-2'', p_userId = ''user-2''\<rparr>],
      portfolios =
        [exampleItem ''prov-1'' ''a'' 0, exampleItem ''prov-1'' ''b'' 1,
         exampleItem ''prov-2'' ''a'' 0, exampleItem ''prov-1'' ''c'' 2,
         exampleItem ''prov-1'' ''d'' 3, exampleItem ''prov-1'' ''e'' 4,
         exampleItem ''prov-1'' ''f'' 5, exampleItem ''prov-2'' ''b'' 1,
         exampleItem ''prov-1'' ''g'' 6, exampleItem ''prov-1'' ''h'' 7,
         exampleItem ''prov-1'' ''i'' 8, exampleItem ''prov-1'' ''j'' 9],
      otps = [bobOtp, carolOtp],
      sessions = [staleSession, liveSession]\<rparr>"

text \<open>
  A world at 2023-11-14T22:23:20Z: bcrypt and jsonwebtoken are stand-ins that tag their
  input; only Alice's current refresh token verifies, the older one has run out.
\<close>

definition exampleWorld :: world where
  "exampleWorld =
     \<lparr>now = 1700000600000,
      generateId_user = ''user-9'', generateId_session = ''session-9'',
      generateId_otp = ''otp-9'', generateId_item = ''item-9'',
      hashPassword = (\<lambda>p. ''bcrypt:'' @ p),
      comparePassword = (\<lambda>p h. h = ''bcrypt:'' @ p),
      generateTokenPair = (\<lambda>userId r. \<lparr>accessToken = ''v2.access.'' @ userId,
                                          refreshToken_of = ''v2.refresh.'' @ userId\<rparr>),
      verifyRefreshToken = (\<lambda>t. if t = ''v1.refresh.user-1''
                                 then Some \<lparr>jp_userId = ''user-1'', jp_role = PROVIDER\<rparr>
                                 else None),
      generateOtp = ''654321'', otp_expiryMinutes = 10\<rparr>"

text \<open>The same world with a refresh-token lifetime under which the older token still verifies.\<close>

definition lenientWorld :: world where
  "lenientWorld =
     exampleWorld\<lparr>verifyRefreshToken :=
                     (\<lambda>t. if t = ''v1.refresh.user-1'' \<or> t = ''v0.refresh.user-1''
                          then Some \<lparr>jp_userId = ''user-1'', jp_role = PROVIDER\<rparr>
                          else None)\<rparr>"



section \<open>Facts about the record store\<close>

lemma db_findOne_None_iff:
  "db_findOne P xs = None \<longleftrightarrow> (\<forall>x \<in> set xs. \<not> P x)"
  by (auto simp: db_findOne_def find_None_iff)

lemma db_findOne_SomeD:
  "db_findOne P xs = Some x \<Longrightarrow> x \<in> set xs \<and> P x"
  by (auto simp: db_findOne_def find_Some_iff)

lemma db_delete_distinct:
  "distinct (map idf xs) \<Longrightarrow> db_delete idf i xs = filter (\<lambda>r. idf r \<noteq> i) xs"
proof (induction xs)
  case Nil
  then show ?case by simp
next
  case (Cons x xs)
  show ?case
  proof (cases "idf x = i")
    case True
    then have "\<forall>r \<in> set xs. idf r \<noteq> i" using Cons.prems(1) by (auto simp: image_iff)
    then have "filter (\<lambda>r. idf r \<noteq> i) xs = xs" by simp
    then show ?thesis using True by simp
  next
    case False
    then show ?thesis using Cons by simp
  qed
qed

lemma same_id_same_record:
  "distinct (map idf xs) \<Longrightarrow> x \<in> set xs \<Longrightarrow> y \<in> set xs \<Longrightarrow> idf x = idf y \<Longrightarrow> x = y"
  by (meson distinct_map inj_onD)

lemma set_db_update_subset:
  "set (db_update idf i f xs) \<subseteq> set xs \<union> f ` set xs"
  by (induction xs) auto


lemma db_update_distinct:
  "distinct (map idf xs) \<Longrightarrow>
     db_update idf i f xs = map (\<lambda>r. if idf r = i then f r else r) xs"
proof (induction xs)
  case Nil
  then show ?case by simp
next
  case (Cons x xs)
  show ?case
  proof (cases "idf x = i")
    case True
    then have "\<forall>r \<in> set xs. idf r \<noteq> i" using Cons.prems(1) by (auto simp: image_iff)
    then have "map (\<lambda>r. if idf r = i then f r else r) xs = xs"
      by (induction xs) auto
    then show ?thesis using True by simp
  next
    case False
    then show ?thesis using Cons by simp
  qed
qed

lemma in_db_update:
  "r \<in> set (db_update idf i f xs) \<Longrightarrow> r \<in> set xs \<or> (\<exists>r0 \<in> set xs. r = f r0)"
  using set_db_update_subset [of idf i f xs] by auto

lemma map_id_db_update:
  "(\<And>r. idf (f r) = idf r) \<Longrightarrow> map idf (db_update idf i f xs) = map idf xs"
  by (induction xs) auto

lemma insort_key_map_inv:
  "(\<And>x. k (g x) = k x) \<Longrightarrow> insort_key k (g x) (map g ys) = map g (insort_key k x ys)"
  by (induction ys) auto

lemma sort_key_map_inv:
  "(\<And>x. k (g x) = k x) \<Longrightarrow> sort_key k (map g xs) = map g (sort_key k xs)"
  by (induction xs) (simp_all add: insort_key_map_inv)

lemma filter_map_inv:
  "(\<And>x. P (g x) = P x) \<Longrightarrow> filter P (map g xs) = map g (filter P xs)"
  by (induction xs) auto

section \<open>OTP expiry\<close>

text \<open>
  C8: \<open>isOtpExpired(expiry)\<close> is true exactly when the current time is strictly greater
  than the expiry timestamp; it is false one second before the expiry and true one second
  after it.
\<close>

theorem isOtpExpired_strict:
  "isOtpExpired nowMs (Some expiry) = (nowMs > expiry)
   \<and> \<not> isOtpExpired expiry (Some expiry)
   \<and> \<not> isOtpExpired (expiry - 1000) (Some expiry)
   \<and> isOtpExpired (expiry + 1000) (Some expiry)"
  by (simp add: isOtpExpired_def)

section \<open>Login with email and password\<close>

text \<open>
  C1, as the code has it: every failure of \<open>loginWithEmail\<close> is an Unauthorized error that
  leaves the store unchanged. Its message is "Invalid email or password" when no user has
  the email and when the password does not match the stored hash, and "Please login with
  phone OTP" when the user found has no password hash.
\<close>

theorem loginWithEmail_failure_messages:
  "(db_findOne (\<lambda>u. u_email u = Some email) (users s) = None \<longrightarrow>
      loginWithEmail w email password s
        = (s, Inl (UnauthorizedError ''Invalid email or password'')))
   \<and> (db_findOne (\<lambda>u. u_email u = Some email) (users s) = Some u
        \<and> \<not> truthy (u_passwordHash u) \<longrightarrow>
      loginWithEmail w email password s
        = (s, Inl (UnauthorizedError ''Please login with phone OTP'')))
   \<and> (db_findOne (\<lambda>u. u_email u = Some email) (users s) = Some u
        \<and> u_passwordHash u = Some h \<and> h \<noteq> [] \<and> \<not> comparePassword w password h \<longrightarrow>
      loginWithEmail w email password s
        = (s, Inl (UnauthorizedError ''Invalid email or password'')))
   \<and> (\<forall>e. snd (loginWithEmail w email password s) = Inl e \<longrightarrow>
        statusCode e = 401 \<and> code e = ''UNAUTHORIZED''
        \<and> fst (loginWithEmail w email password s) = s)"
  by (auto simp: loginWithEmail_def Let_def or_null_def truthy_def UnauthorizedError_def
           split: option.splits if_splits)

theorem loginWithEmail_failure_messages_witness:
  "db_findOne (\<lambda>u. u_email u = Some ''nonexistent@x.com'') (users exampleDb) = None
   \<and> loginWithEmail exampleWorld ''nonexistent@x.com'' ''whatever'' exampleDb
        = (exampleDb, Inl (UnauthorizedError ''Invalid email or password''))
   \<and> db_findOne (\<lambda>u. u_email u = Some ''c@d.com'') (users exampleDb) = Some carol
   \<and> \<not> truthy (u_passwordHash carol)
   \<and> loginWithEmail exampleWorld ''c@d.com'' ''whatever'' exampleDb
        = (exampleDb, Inl (UnauthorizedError ''Please login with phone OTP''))
   \<and> db_findOne (\<lambda>u. u_email u = Some ''a@b.com'') (users exampleDb) = Some alice
   \<and> u_passwordHash alice = Some ''bcrypt:Secure123''
   \<and> \<not> comparePassword exampleWorld ''wrongpass'' ''bcrypt:Secure123''
   \<and> loginWithEmail exampleWorld ''a@b.com'' ''wrongpass'' exampleDb
        = (exampleDb, Inl (UnauthorizedError ''Invalid email or password''))"
proof -
  have n: "db_findOne (\<lambda>u. u_email u = Some ''nonexistent@x.com'') (users exampleDb) = None"
    by (simp add: db_findOne_def exampleDb_def alice_def bob_def carol_def)
  have c: "db_findOne (\<lambda>u. u_email u = Some ''c@d.com'') (users exampleDb) = Some carol"
    by (simp add: db_findOne_def exampleDb_def alice_def bob_def carol_def)
  have c': "\<not> truthy (u_passwordHash carol)"
    by (simp add: carol_def truthy_def)
  have a: "db_findOne (\<lambda>u. u_email u = Some ''a@b.com'') (users exampleDb) = Some alice"
    by (simp add: db_findOne_def exampleDb_def alice_def)
  have a': "u_passwordHash alice = Some ''bcrypt:Secure123''"
    "\<not> comparePassword exampleWorld ''wrongpass'' ''bcrypt:Secure123''"
    by (simp_all add: alice_def exampleWorld_def)
  show ?thesis
    using loginWithEmail_failure_messages
            [where email = "''nonexistent@x.com''" and s = exampleDb and w = exampleWorld
               and password = "''whatever''"]
          loginWithEmail_failure_messages
            [where email = "''c@d.com''" and s = exampleDb and w = exampleWorld
               and password = "''whatever''" and u = carol]
          loginWithEmail_failure_messages
            [where email = "''a@b.com''" and s = exampleDb and w = exampleWorld
               and password = "''wrongpass''" and u = alice and h = "''bcrypt:Secure123''"]
          n c c' a a'
    by simp
qed

text \<open>
  The message is not the same in all three cases: for Carol, whose record has an email and
  no password hash, the text differs from "Invalid email or password".
\<close>

theorem loginWithEmail_identical_message_counterexample:
  "u_email carol = Some ''c@d.com'' \<and> u_passwordHash carol = None
   \<and> loginWithEmail exampleWorld ''c@d.com'' ''whatever'' exampleDb
        = (exampleDb, Inl \<lparr>message = ''Please login with phone OTP'', statusCode = 401,
                             code = ''UNAUTHORIZED''\<rparr>)
   \<and> ''Please login with phone OTP'' \<noteq> ''Invalid email or password''"
  by (simp add: loginWithEmail_def db_findOne_def exampleDb_def alice_def bob_def carol_def
        or_null_def truthy_def UnauthorizedError_def)

section \<open>OTP verification\<close>

lemma resolveUser_phone:
  "truthy (id_phone ident) \<Longrightarrow>
     resolveUser ident s = db_findOne (\<lambda>u. u_phoneNumber u = id_phone ident) (users s)"
  by (simp add: resolveUser_def)

lemma resolveUser_neither:
  "\<not> truthy (id_phone ident) \<Longrightarrow> \<not> truthy (id_email ident) \<Longrightarrow> resolveUser ident s = None"
  by (simp add: resolveUser_def)

lemma verifyOtp_cong_user:
  "resolveUser i1 s = resolveUser i2 s \<Longrightarrow> verifyOtp w i1 c s = verifyOtp w i2 c s"
  by (simp add: verifyOtp_def)

text \<open>
  C10: when a phone is supplied (a non-empty string, the test the code applies), the user
  is the one found by phone and the email passed along changes nothing: with no user
  under that phone the call fails with NotFound even if the email names one; with a user
  under it, it is that user's pending OTP the code is compared with, that user's OTP that
  is marked verified or charged with the failed attempt, and that user the tokens are
  minted for. When neither identifier is supplied the call fails with NotFound and the
  store, its OTP records included, is returned as it was.
\<close>

theorem verifyOtp_identifier_precedence:
  "(truthy (Some p) \<longrightarrow>
      resolveUser \<lparr>id_phone = Some p, id_email = e\<rparr> s
        = db_findOne (\<lambda>u. u_phoneNumber u = Some p) (users s)
      \<and> verifyOtp w \<lparr>id_phone = Some p, id_email = e\<rparr> c s
        = verifyOtp w \<lparr>id_phone = Some p, id_email = None\<rparr> c s)
   \<and> (truthy (Some p)
        \<and> db_findOne (\<lambda>u. u_phoneNumber u = Some p) (users s) = None \<longrightarrow>
      verifyOtp w \<lparr>id_phone = Some p, id_email = e\<rparr> c s
        = (s, Inl (NotFoundError ''User'')))
   \<and> (truthy (Some p)
        \<and> db_findOne (\<lambda>u. u_phoneNumber u = Some p) (users s) = Some u
        \<and> latestOtp (u_id u) s = Some pending
        \<and> \<not> isOtpExpired (now w) (Some (o_expiresAt pending))
        \<and> o_attempts pending < 3 \<and> o_code pending = c \<longrightarrow>
      (\<exists>s1 r. verifyOtp w \<lparr>id_phone = Some p, id_email = e\<rparr> c s = (s1, Inr r)
         \<and> user r = (authUser u)\<lparr>au_isVerified := True\<rparr>
         \<and> tokens r = generateTokenPair w (u_id u) (u_role u)
         \<and> otps s1 = db_update o_id (o_id pending) (\<lambda>r. r\<lparr>o_verified := True\<rparr>) (otps s)))
   \<and> (truthy (Some p)
        \<and> db_findOne (\<lambda>u. u_phoneNumber u = Some p) (users s) = Some u
        \<and> latestOtp (u_id u) s = Some pending
        \<and> \<not> isOtpExpired (now w) (Some (o_expiresAt pending))
        \<and> o_attempts pending < 3 \<and> o_code pending \<noteq> c \<longrightarrow>
      verifyOtp w \<lparr>id_phone = Some p, id_email = e\<rparr> c s
        = (s\<lparr>otps := db_update o_id (o_id pending)
                          (\<lambda>r. r\<lparr>o_attempts := o_attempts pending + 1\<rparr>) (otps s)\<rparr>,
           Inl (BadRequestError ''Invalid OTP'')))
   \<and> (\<not> truthy ph \<and> \<not> truthy em \<longrightarrow>
      verifyOtp w \<lparr>id_phone = ph, id_email = em\<rparr> c s = (s, Inl (NotFoundError ''User''))
      \<and> message (NotFoundError ''User'') = ''User not found''
      \<and> statusCode (NotFoundError ''User'') = 404)"
proof (intro conjI impI)
  assume t: "truthy (Some p)"
  show "resolveUser \<lparr>id_phone = Some p, id_email = e\<rparr> s
          = db_findOne (\<lambda>u. u_phoneNumber u = Some p) (users s)"
    using t by (simp add: resolveUser_phone)
  have "resolveUser \<lparr>id_phone = Some p, id_email = e\<rparr> s
          = resolveUser \<lparr>id_phone = Some p, id_email = None\<rparr> s"
    using t by (simp add: resolveUser_phone)
  then show "verifyOtp w \<lparr>id_phone = Some p, id_email = e\<rparr> c s
               = verifyOtp w \<lparr>id_phone = Some p, id_email = None\<rparr> c s"
    by (rule verifyOtp_cong_user)
next
  assume "truthy (Some p)
        \<and> db_findOne (\<lambda>u. u_phoneNumber u = Some p) (users s) = None"
  then have "resolveUser \<lparr>id_phone = Some p, id_email = e\<rparr> s = None"
    by (simp add: resolveUser_phone)
  then show "verifyOtp w \<lparr>id_phone = Some p, id_email = e\<rparr> c s
               = (s, Inl (NotFoundError ''User''))"
    by (simp add: verifyOtp_def)
next
  assume a: "truthy (Some p)
        \<and> db_findOne (\<lambda>u. u_phoneNumber u = Some p) (users s) = Some u
        \<and> latestOtp (u_id u) s = Some pending
        \<and> \<not> isOtpExpired (now w) (Some (o_expiresAt pending))
        \<and> o_attempts pending < 3 \<and> o_code pending = c"
  then have "resolveUser \<lparr>id_phone = Some p, id_email = e\<rparr> s = Some u"
    by (simp add: resolveUser_phone)
  then show "\<exists>s1 r. verifyOtp w \<lparr>id_phone = Some p, id_email = e\<rparr> c s = (s1, Inr r)
         \<and> user r = (authUser u)\<lparr>au_isVerified := True\<rparr>
         \<and> tokens r = generateTokenPair w (u_id u) (u_role u)
         \<and> otps s1 = db_update o_id (o_id pending) (\<lambda>r. r\<lparr>o_verified := True\<rparr>) (otps s)"
    using a by (simp add: verifyOtp_def Let_def createSession_def)
next
  assume a: "truthy (Some p)
        \<and> db_findOne (\<lambda>u. u_phoneNumber u = Some p) (users s) = Some u
        \<and> latestOtp (u_id u) s = Some pending
        \<and> \<not> isOtpExpired (now w) (Some (o_expiresAt pending))
        \<and> o_attempts pending < 3 \<and> o_code pending \<noteq> c"
  then have "resolveUser \<lparr>id_phone = Some p, id_email = e\<rparr> s = Some u"
    by (simp add: resolveUser_phone)
  then show "verifyOtp w \<lparr>id_phone = Some p, id_email = e\<rparr> c s
        = (s\<lparr>otps := db_update o_id (o_id pending)
                          (\<lambda>r. r\<lparr>o_attempts := o_attempts pending + 1\<rparr>) (otps s)\<rparr>,
           Inl (BadRequestError ''Invalid OTP''))"
    using a by (simp add: verifyOtp_def)
next
  assume "\<not> truthy ph \<and> \<not> truthy em"
  then have "resolveUser \<lparr>id_phone = ph, id_email = em\<rparr> s = None"
    by (simp add: resolveUser_neither)
  then show "verifyOtp w \<lparr>id_phone = ph, id_email = em\<rparr> c s
               = (s, Inl (NotFoundError ''User''))"
    by (simp add: verifyOtp_def)
next
  show "message (NotFoundError ''User'') = ''User not found''"
    by (simp add: NotFoundError_def)
next
  show "statusCode (NotFoundError ''User'') = 404"
    by (simp add: NotFoundError_def)
qed

text \<open>
  Bob's phone together with Carol's email: Bob is logged in with his own pending code
  (Carol's OTP is locked and her code is another one), and a wrong code is charged to his
  OTP. Nobody has the phone number 5550001111: the call fails although Alice's email is
  passed along with it.
\<close>

lemma latestOtp_bob: "latestOtp (u_id bob) exampleDb = Some bobOtp"
  by (simp add: latestOtp_def unverifiedOtps_def db_findWhere_def exampleDb_def bob_def
        bobOtp_def carolOtp_def)

theorem verifyOtp_identifier_precedence_witness:
  "truthy (Some ''9876543210'')
   \<and> db_findOne (\<lambda>u. u_phoneNumber u = Some ''9876543210'') (users exampleDb) = Some bob
   \<and> db_findOne (\<lambda>u. u_email u = Some ''c@d.com'') (users exampleDb) = Some carol
   \<and> (\<exists>s1 r. verifyOtp exampleWorld
                 \<lparr>id_phone = Some ''9876543210'', id_email = Some ''c@d.com''\<rparr> ''123456''
                 exampleDb = (s1, Inr r)
         \<and> au_id (user r) = ''user-2''
         \<and> tokens r = generateTokenPair exampleWorld ''user-2'' PROVIDER
         \<and> otps s1 = [bobOtp\<lparr>o_verified := True\<rparr>, carolOtp])
   \<and> verifyOtp exampleWorld \<lparr>id_phone = Some ''9876543210'', id_email = Some ''c@d.com''\<rparr>
        ''222222'' exampleDb
       = (exampleDb\<lparr>otps := [bobOtp\<lparr>o_attempts := 1\<rparr>, carolOtp]\<rparr>,
          Inl (BadRequestError ''Invalid OTP''))
   \<and> truthy (Some ''5550001111'')
   \<and> db_findOne (\<lambda>u. u_phoneNumber u = Some ''5550001111'') (users exampleDb) = None
   \<and> verifyOtp exampleWorld \<lparr>id_phone = Some ''5550001111'', id_email = Some ''a@b.com''\<rparr>
        ''123456'' exampleDb
       = (exampleDb, Inl (NotFoundError ''User''))
   \<and> \<not> truthy None \<and> \<not> truthy (Some [])
   \<and> verifyOtp exampleWorld \<lparr>id_phone = None, id_email = Some []\<rparr> ''123456'' exampleDb
       = (exampleDb, Inl (NotFoundError ''User''))"
proof -
  have t: "truthy (Some ''9876543210'')" "truthy (Some ''5550001111'')"
    "\<not> truthy None \<and> \<not> truthy (Some [])"
    by (simp_all add: truthy_def)
  have b: "db_findOne (\<lambda>u. u_phoneNumber u = Some ''9876543210'') (users exampleDb) = Some bob"
    by (simp add: db_findOne_def exampleDb_def alice_def bob_def)
  have cr: "db_findOne (\<lambda>u. u_email u = Some ''c@d.com'') (users exampleDb) = Some carol"
    by (simp add: db_findOne_def exampleDb_def alice_def bob_def carol_def)
  have n: "db_findOne (\<lambda>u. u_phoneNumber u = Some ''5550001111'') (users exampleDb) = None"
    by (simp add: db_findOne_def exampleDb_def alice_def bob_def carol_def)
  have live: "\<not> isOtpExpired (now exampleWorld) (Some (o_expiresAt bobOtp))"
    "o_attempts bobOtp < 3" "o_code bobOtp = ''123456''" "o_code bobOtp \<noteq> ''222222''"
    by (simp_all add: isOtpExpired_def exampleWorld_def bobOtp_def)
  have bobs: "u_id bob = ''user-2''" "u_role bob = PROVIDER"
    by (simp_all add: bob_def)
  have upd1: "db_update o_id (o_id bobOtp) (\<lambda>r. r\<lparr>o_verified := True\<rparr>) (otps exampleDb)
                = [bobOtp\<lparr>o_verified := True\<rparr>, carolOtp]"
    and upd2: "db_update o_id (o_id bobOtp) (\<lambda>r. r\<lparr>o_attempts := o_attempts bobOtp + 1\<rparr>)
                 (otps exampleDb) = [bobOtp\<lparr>o_attempts := 1\<rparr>, carolOtp]"
    by (simp_all add: exampleDb_def bobOtp_def)
  have ok: "\<exists>s1 r. verifyOtp exampleWorld
                 \<lparr>id_phone = Some ''9876543210'', id_email = Some ''c@d.com''\<rparr> ''123456''
                 exampleDb = (s1, Inr r)
         \<and> au_id (user r) = ''user-2''
         \<and> tokens r = generateTokenPair exampleWorld ''user-2'' PROVIDER
         \<and> otps s1 = [bobOtp\<lparr>o_verified := True\<rparr>, carolOtp]"
  proof -
    have "\<exists>s1 r. verifyOtp exampleWorld
                 \<lparr>id_phone = Some ''9876543210'', id_email = Some ''c@d.com''\<rparr> ''123456''
                 exampleDb = (s1, Inr r)
         \<and> user r = (authUser bob)\<lparr>au_isVerified := True\<rparr>
         \<and> tokens r = generateTokenPair exampleWorld (u_id bob) (u_role bob)
         \<and> otps s1 = db_update o_id (o_id bobOtp) (\<lambda>r. r\<lparr>o_verified := True\<rparr>)
                        (otps exampleDb)"
      using verifyOtp_identifier_precedence
            [where p = "''9876543210''" and e = "Some ''c@d.com''" and w = exampleWorld
               and c = "''123456''" and s = exampleDb and u = bob and pending = bobOtp
               and ph = None and em = "Some []"]
          t b latestOtp_bob live
      by blast
    then obtain s1 r where
      "verifyOtp exampleWorld
                 \<lparr>id_phone = Some ''9876543210'', id_email = Some ''c@d.com''\<rparr> ''123456''
                 exampleDb = (s1, Inr r)"
      "user r = (authUser bob)\<lparr>au_isVerified := True\<rparr>"
      "tokens r = generateTokenPair exampleWorld (u_id bob) (u_role bob)"
      "otps s1 = [bobOtp\<lparr>o_verified := True\<rparr>, carolOtp]"
      using upd1 by auto
    moreover from this have "au_id (user r) = ''user-2''"
      by (simp add: authUser_def bobs)
    ultimately show ?thesis using bobs by auto
  qed
  have wrong: "verifyOtp exampleWorld
                 \<lparr>id_phone = Some ''9876543210'', id_email = Some ''c@d.com''\<rparr>
                 ''222222'' exampleDb
       = (exampleDb\<lparr>otps := [bobOtp\<lparr>o_attempts := 1\<rparr>, carolOtp]\<rparr>,
          Inl (BadRequestError ''Invalid OTP''))"
  proof -
    have "verifyOtp exampleWorld
                 \<lparr>id_phone = Some ''9876543210'', id_email = Some ''c@d.com''\<rparr>
                 ''222222'' exampleDb
       = (exampleDb\<lparr>otps := db_update o_id (o_id bobOtp)
                                  (\<lambda>r. r\<lparr>o_attempts := o_attempts bobOtp + 1\<rparr>)
                                  (otps exampleDb)\<rparr>,
          Inl (BadRequestError ''Invalid OTP''))"
      using verifyOtp_identifier_precedence
            [where p = "''9876543210''" and e = "Some ''c@d.com''" and w = exampleWorld
               and c = "''222222''" and s = exampleDb and u = bob and pending = bobOtp
               and ph = None and em = "Some []"]
          t b latestOtp_bob live
      by blast
    then show ?thesis by (simp only: upd2)
  qed
  have nobody: "verifyOtp exampleWorld
                  \<lparr>id_phone = Some ''5550001111'', id_email = Some ''a@b.com''\<rparr>
                  ''123456'' exampleDb = (exampleDb, Inl (NotFoundError ''User''))"
    and neither: "verifyOtp exampleWorld \<lparr>id_phone = None, id_email = Some []\<rparr> ''123456''
                    exampleDb = (exampleDb, Inl (NotFoundError ''User''))"
    using verifyOtp_identifier_precedence
            [where p = "''5550001111''" and e = "Some ''a@b.com''" and w = exampleWorld
               and c = "''123456''" and s = exampleDb and ph = None and em = "Some []"]
          t n
    by blast+
  show ?thesis using t b cr n ok wrong nobody neither by blast
qed

text \<open>
  What \<open>verifyOtp\<close> selects is an unverified OTP of the user, and none of the user's
  unverified OTPs was created later.
\<close>

lemma latestOtp_in_unverified:
  "latestOtp userId s = Some x \<Longrightarrow> x \<in> set (unverifiedOtps userId s)"
proof -
  assume a: "latestOtp userId s = Some x"
  then obtain rest where "sort_key (\<lambda>r. - o_createdAt r) (unverifiedOtps userId s) = x # rest"
    by (auto simp: latestOtp_def split: list.splits)
  then have "x \<in> set (sort_key (\<lambda>r. - o_createdAt r) (unverifiedOtps userId s))" by simp
  then show ?thesis by simp
qed

lemma latestOtp_props:
  "latestOtp userId s = Some x \<Longrightarrow> x \<in> set (otps s) \<and> o_userId x = userId \<and> \<not> o_verified x"
  using latestOtp_in_unverified [of userId s x]
  by (auto simp: unverifiedOtps_def db_findWhere_def)

lemma latestOtp_newest:
  assumes "latestOtp userId s = Some x" and "y \<in> set (unverifiedOtps userId s)"
  shows "o_createdAt y \<le> o_createdAt x"
proof -
  let ?k = "\<lambda>r. - o_createdAt r"
  obtain rest where e: "sort_key ?k (unverifiedOtps userId s) = x # rest"
    using assms(1) by (auto simp: latestOtp_def split: list.splits)
  have "sorted (map ?k (sort_key ?k (unverifiedOtps userId s)))" by simp
  then have "\<forall>z \<in> set rest. ?k x \<le> ?k z" unfolding e by simp
  moreover have "y \<in> set (x # rest)" using assms(2) e
    by (metis set_sort)
  ultimately show ?thesis by auto
qed

text \<open>
  C3: when the OTP that \<open>verifyOtp\<close> selects for the user (the most recently created
  unverified one) has not expired and its attempt counter is 3 or more, the call fails
  with BadRequest and the lockout message whatever code is submitted, the stored code
  included, and the store is unchanged.
\<close>

theorem verifyOtp_lockout:
  assumes "resolveUser ident s = Some u"
    and "latestOtp (u_id u) s = Some latest"
    and "\<not> isOtpExpired (now w) (Some (o_expiresAt latest))"
    and "o_attempts latest \<ge> 3"
  shows "verifyOtp w ident otpCode s
           = (s, Inl (BadRequestError ''Too many failed attempts. Please request a new OTP.''))
         \<and> statusCode (BadRequestError ''Too many failed attempts. Please request a new OTP.'')
             = 400"
  using assms by (simp add: verifyOtp_def BadRequestError_def)

lemma latestOtp_carol: "latestOtp ''user-3'' exampleDb = Some carolOtp"
  by (simp add: latestOtp_def unverifiedOtps_def db_findWhere_def exampleDb_def bobOtp_def
        carolOtp_def)

theorem verifyOtp_lockout_witness:
  "resolveUser \<lparr>id_phone = Some ''9123456780'', id_email = None\<rparr> exampleDb = Some carol
   \<and> latestOtp (u_id carol) exampleDb = Some carolOtp
   \<and> \<not> isOtpExpired (now exampleWorld) (Some (o_expiresAt carolOtp))
   \<and> o_attempts carolOtp \<ge> 3
   \<and> verifyOtp exampleWorld \<lparr>id_phone = Some ''9123456780'', id_email = None\<rparr> (o_code carolOtp)
        exampleDb
       = (exampleDb,
          Inl (BadRequestError ''Too many failed attempts. Please request a new OTP.''))"
proof -
  have h1: "resolveUser \<lparr>id_phone = Some ''9123456780'', id_email = None\<rparr> exampleDb = Some carol"
    by (simp add: resolveUser_def truthy_def db_findOne_def exampleDb_def alice_def bob_def
          carol_def)
  have h2: "latestOtp (u_id carol) exampleDb = Some carolOtp"
    using latestOtp_carol by (simp add: carol_def)
  have h3: "\<not> isOtpExpired (now exampleWorld) (Some (o_expiresAt carolOtp))"
    by (simp add: isOtpExpired_def exampleWorld_def carolOtp_def)
  have h4: "o_attempts carolOtp \<ge> 3" by (simp add: carolOtp_def)
  from verifyOtp_lockout [OF h1 h2 h3 h4, of "o_code carolOtp"] h1 h2 h3 h4
  show ?thesis by simp
qed

text \<open>
  A wrong code raises the attempt counter of the selected OTP and of no other record; the
  same OTP is selected by the next call.
\<close>

lemma latestOtp_after_attempt:
  assumes ids: "distinct (map o_id (otps s))" and l: "latestOtp userId s = Some l"
  shows "latestOtp userId
           (s\<lparr>otps := db_update o_id (o_id l) (\<lambda>r. r\<lparr>o_attempts := n\<rparr>) (otps s)\<rparr>)
         = Some (l\<lparr>o_attempts := n\<rparr>)"
proof -
  let ?g = "\<lambda>r. if o_id r = o_id l then r\<lparr>o_attempts := n\<rparr> else r"
  let ?k = "\<lambda>r. - o_createdAt r"
  let ?P = "\<lambda>r. o_userId r = userId \<and> \<not> o_verified r"
  have upd: "db_update o_id (o_id l) (\<lambda>r. r\<lparr>o_attempts := n\<rparr>) (otps s) = map ?g (otps s)"
    using ids by (rule db_update_distinct)
  obtain rest where sorted: "sort_key ?k (filter ?P (otps s)) = l # rest"
    using l by (auto simp: latestOtp_def unverifiedOtps_def db_findWhere_def split: list.splits)
  have "sort_key ?k (filter ?P (map ?g (otps s))) = map ?g (sort_key ?k (filter ?P (otps s)))"
    by (simp add: filter_map_inv sort_key_map_inv)
  then have "sort_key ?k (filter ?P (map ?g (otps s))) = ?g l # map ?g rest"
    by (simp add: sorted)
  then show ?thesis
    by (simp add: latestOtp_def unverifiedOtps_def db_findWhere_def upd)
qed

lemma resolveUser_otps [simp]: "resolveUser ident (s\<lparr>otps := x\<rparr>) = resolveUser ident s"
  by (simp add: resolveUser_def)

lemma verifyOtp_wrong_code:
  assumes ids: "distinct (map o_id (otps s))"
    and u: "resolveUser ident s = Some u"
    and l: "latestOtp (u_id u) s = Some l"
    and live: "\<not> isOtpExpired (now w) (Some (o_expiresAt l))"
    and few: "o_attempts l < 3"
    and wrong: "o_code l \<noteq> c"
  shows "snd (verifyOtp w ident c s) = Inl (BadRequestError ''Invalid OTP'')"
    and "distinct (map o_id (otps (fst (verifyOtp w ident c s))))"
    and "resolveUser ident (fst (verifyOtp w ident c s)) = Some u"
    and "latestOtp (u_id u) (fst (verifyOtp w ident c s))
           = Some (l\<lparr>o_attempts := o_attempts l + 1\<rparr>)"
proof -
  let ?s1 = "s\<lparr>otps := db_update o_id (o_id l)
                          (\<lambda>r. r\<lparr>o_attempts := o_attempts l + 1\<rparr>) (otps s)\<rparr>"
  have v: "verifyOtp w ident c s = (?s1, Inl (BadRequestError ''Invalid OTP''))"
    using u l live few wrong by (simp add: verifyOtp_def)
  show "snd (verifyOtp w ident c s) = Inl (BadRequestError ''Invalid OTP'')"
    by (simp add: v)
  show "distinct (map o_id (otps (fst (verifyOtp w ident c s))))"
    using ids by (simp add: v map_id_db_update)
  show "resolveUser ident (fst (verifyOtp w ident c s)) = Some u"
    using u by (simp add: v)
  show "latestOtp (u_id u) (fst (verifyOtp w ident c s))
           = Some (l\<lparr>o_attempts := o_attempts l + 1\<rparr>)"
    unfolding v fst_conv using ids l by (rule latestOtp_after_attempt)
qed

text \<open>
  The scenario behind the lockout: from a fresh OTP, three submissions of a wrong code
  each fail with "Invalid OTP" and raise the counter, and the fourth submission, now with
  the right code, is refused.
\<close>

lemma verifyOtp_three_strikes:
  assumes ids: "distinct (map o_id (otps s))"
    and u: "resolveUser ident s = Some u"
    and l: "latestOtp (u_id u) s = Some l"
    and zero: "o_attempts l = 0"
    and live: "\<not> isOtpExpired (now w1) (Some (o_expiresAt l))"
              "\<not> isOtpExpired (now w2) (Some (o_expiresAt l))"
              "\<not> isOtpExpired (now w3) (Some (o_expiresAt l))"
              "\<not> isOtpExpired (now w4) (Some (o_expiresAt l))"
    and wrong: "c1 \<noteq> o_code l" "c2 \<noteq> o_code l" "c3 \<noteq> o_code l"
  shows "snd (verifyOtp w4 ident (o_code l)
                (fst (verifyOtp w3 ident c3
                   (fst (verifyOtp w2 ident c2
                      (fst (verifyOtp w1 ident c1 s)))))))
         = Inl (BadRequestError ''Too many failed attempts. Please request a new OTP.'')"
proof -
  let ?s1 = "fst (verifyOtp w1 ident c1 s)"
  let ?s2 = "fst (verifyOtp w2 ident c2 ?s1)"
  let ?s3 = "fst (verifyOtp w3 ident c3 ?s2)"
  let ?l1 = "l\<lparr>o_attempts := 1\<rparr>"
  let ?l2 = "l\<lparr>o_attempts := 2\<rparr>"
  let ?l3 = "l\<lparr>o_attempts := 3\<rparr>"
  have s1: "distinct (map o_id (otps ?s1))" "resolveUser ident ?s1 = Some u"
    "latestOtp (u_id u) ?s1 = Some ?l1"
    using verifyOtp_wrong_code [OF ids u l live(1), of c1] zero wrong(1) by simp_all
  have s2: "distinct (map o_id (otps ?s2))" "resolveUser ident ?s2 = Some u"
    "latestOtp (u_id u) ?s2 = Some ?l2"
    using verifyOtp_wrong_code [OF s1(1) s1(2) s1(3), of w2 c2] live(2) wrong(2) by simp_all
  have s3: "resolveUser ident ?s3 = Some u" "latestOtp (u_id u) ?s3 = Some ?l3"
    using verifyOtp_wrong_code [OF s2(1) s2(2) s2(3), of w3 c3] live(3) wrong(3) by simp_all
  show ?thesis
    using s3 live(4) by (simp add: verifyOtp_def)
qed

text \<open>
  What each call does to the \<open>otps\<close> collection: a record of the new store is a record of
  the old one, or a new record under the id just drawn, or an old record with its attempt
  counter changed or its \<open>verified\<close> flag set. Nothing clears the flag.
\<close>

lemma verifyOtp_success:
  assumes "verifyOtp w ident c s = (s1, Inr resp)"
  shows "\<exists>u latest. resolveUser ident s = Some u \<and> latestOtp (u_id u) s = Some latest
           \<and> o_code latest = c
           \<and> otps s1 = db_update o_id (o_id latest) (\<lambda>r. r\<lparr>o_verified := True\<rparr>) (otps s)"
  using assms
  by (auto simp: verifyOtp_def Let_def createSession_def split: option.splits if_splits)

lemma otps_createSession [simp]:
  "otps (fst (createSession w userId tok ua ip s)) = otps s"
  by (simp add: createSession_def Let_def)

lemma otps_registerWithEmail:
  "r \<in> set (otps (fst (registerWithEmail w em pw s))) \<Longrightarrow>
     r \<in> set (otps s) \<or> o_id r = generateId_otp w"
  by (auto simp: registerWithEmail_def Let_def sendEmailOtp_def db_create_def
           split: option.splits)

lemma otps_loginWithEmail: "otps (fst (loginWithEmail w em pw s)) = otps s"
  by (auto simp: loginWithEmail_def Let_def split: option.splits)

lemma otps_sendPhoneOtp:
  "r \<in> set (otps (fst (sendPhoneOtp w ph s))) \<Longrightarrow>
     r \<in> set (otps s) \<or> o_id r = generateId_otp w"
  by (auto simp: sendPhoneOtp_def Let_def db_create_def split: option.splits)

lemma otps_sendEmailOtp:
  "r \<in> set (otps (fst (sendEmailOtp w userId em ty s))) \<Longrightarrow>
     r \<in> set (otps s) \<or> o_id r = generateId_otp w"
  by (auto simp: sendEmailOtp_def Let_def db_create_def)

lemma otps_verifyOtp_shape:
  "otps (fst (verifyOtp w ident c s)) = otps s
   \<or> (\<exists>i n. otps (fst (verifyOtp w ident c s))
                = db_update o_id i (\<lambda>r. r\<lparr>o_attempts := n\<rparr>) (otps s))
   \<or> (\<exists>i. otps (fst (verifyOtp w ident c s))
              = db_update o_id i (\<lambda>r. r\<lparr>o_verified := True\<rparr>) (otps s))"
proof (cases "resolveUser ident s")
  case None
  then show ?thesis by (simp add: verifyOtp_def)
next
  case (Some u)
  note u = Some
  show ?thesis
  proof (cases "latestOtp (u_id u) s")
    case None
    then show ?thesis using u by (simp add: verifyOtp_def)
  next
    case (Some latest)
    show ?thesis
    proof (cases "isOtpExpired (now w) (Some (o_expiresAt latest)) \<or> o_attempts latest \<ge> 3")
      case True
      then show ?thesis using u Some by (auto simp: verifyOtp_def)
    next
      case False
      note live = False
      show ?thesis
      proof (cases "o_code latest = c")
        case False
        then have "otps (fst (verifyOtp w ident c s))
                = db_update o_id (o_id latest) (\<lambda>r. r\<lparr>o_attempts := o_attempts latest + 1\<rparr>)
                    (otps s)"
          using u Some live by (simp add: verifyOtp_def)
        then show ?thesis by blast
      next
        case True
        then have "otps (fst (verifyOtp w ident c s))
                = db_update o_id (o_id latest) (\<lambda>r. r\<lparr>o_verified := True\<rparr>) (otps s)"
          using u Some live by (simp add: verifyOtp_def Let_def)
        then show ?thesis by blast
      qed
    qed
  qed
qed

lemma otps_verifyOtp:
  assumes "r \<in> set (otps (fst (verifyOtp w ident c s)))"
  shows "r \<in> set (otps s) \<or> (\<exists>r0 \<in> set (otps s). \<exists>n. r = r0\<lparr>o_attempts := n\<rparr>)
         \<or> (\<exists>r0 \<in> set (otps s). r = r0\<lparr>o_verified := True\<rparr>)"
  using otps_verifyOtp_shape [of w ident c s]
proof (elim disjE exE)
  assume "otps (fst (verifyOtp w ident c s)) = otps s"
  then show ?thesis using assms by simp
next
  fix i n
  assume "otps (fst (verifyOtp w ident c s))
            = db_update o_id i (\<lambda>r. r\<lparr>o_attempts := n\<rparr>) (otps s)"
  then have "r \<in> set (db_update o_id i (\<lambda>r. r\<lparr>o_attempts := n\<rparr>) (otps s))"
    using assms by simp
  from in_db_update [OF this] show ?thesis by blast
next
  fix i
  assume "otps (fst (verifyOtp w ident c s))
            = db_update o_id i (\<lambda>r. r\<lparr>o_verified := True\<rparr>) (otps s)"
  then have "r \<in> set (db_update o_id i (\<lambda>r. r\<lparr>o_verified := True\<rparr>) (otps s))"
    using assms by simp
  from in_db_update [OF this] show ?thesis by blast
qed

lemma otps_refreshToken: "otps (fst (refreshToken w tok s)) = otps s"
  by (auto simp: refreshToken_def Let_def split: option.splits)

lemma exec_otps_origin:
  assumes "r \<in> set (otps (exec w c s))"
  shows "r \<in> set (otps s) \<or> o_id r = generateId_otp w
         \<or> (\<exists>r0 \<in> set (otps s). \<exists>n. r = r0\<lparr>o_attempts := n\<rparr>)
         \<or> (\<exists>r0 \<in> set (otps s). r = r0\<lparr>o_verified := True\<rparr>)"
proof (cases c)
  case (RegisterWithEmail em pw)
  then show ?thesis using assms otps_registerWithEmail [of r w em pw s] by auto
next
  case (LoginWithEmail em pw)
  then show ?thesis using assms by (simp add: otps_loginWithEmail)
next
  case (SendPhoneOtp ph)
  then show ?thesis using assms otps_sendPhoneOtp [of r w ph s] by auto
next
  case (SendEmailOtp userId em ty)
  then show ?thesis using assms otps_sendEmailOtp [of r w userId em ty s] by auto
next
  case (VerifyOtp ident otpCode)
  then show ?thesis using assms otps_verifyOtp [of r w ident otpCode s] by auto
next
  case (RefreshToken tok)
  then show ?thesis using assms by (simp add: otps_refreshToken)
next
  case (Logout tok)
  then show ?thesis using assms by (simp add: logout_def)
next
  case (LogoutAll userId)
  then show ?thesis using assms by (simp add: logoutAll_def)
next
  case CleanupExpiredOtps
  then show ?thesis using assms by (auto simp: cleanupExpiredOtps_def db_deleteWhere_def)
next
  case CleanupExpiredSessions
  then show ?thesis using assms by (simp add: cleanupExpiredSessions_def)
qed

lemma exec_keeps_verified:
  assumes "\<forall>r \<in> set (otps s). o_id r = X \<longrightarrow> o_verified r" and "generateId_otp w \<noteq> X"
  shows "\<forall>r \<in> set (otps (exec w c s)). o_id r = X \<longrightarrow> o_verified r"
proof (intro ballI impI)
  fix r assume r: "r \<in> set (otps (exec w c s))" and x: "o_id r = X"
  from exec_otps_origin [OF r] show "o_verified r"
    using assms x by auto
qed

lemma run_keeps_verified:
  assumes "\<forall>r \<in> set (otps s). o_id r = X \<longrightarrow> o_verified r"
    and "\<forall>(w, c) \<in> set cs. generateId_otp w \<noteq> X"
  shows "\<forall>r \<in> set (otps (run cs s)). o_id r = X \<longrightarrow> o_verified r"
  using assms
proof (induction cs arbitrary: s)
  case Nil
  then show ?case by simp
next
  case (Cons wc cs)
  obtain w c where wc: "wc = (w, c)" by (cases wc)
  have "\<forall>r \<in> set (otps (exec w c s)). o_id r = X \<longrightarrow> o_verified r"
    using Cons.prems wc by (intro exec_keeps_verified) auto
  then show ?case using Cons.IH [of "exec w c s"] Cons.prems(2) wc by simp
qed

text \<open>
  C2: an OTP record is accepted once. When \<open>verifyOtp\<close> succeeds, the record it accepted
  (the one selected for the user, unverified until then, whose code was submitted) is
  marked verified, and after any later sequence of calls it still is: whatever identifier
  and code a later \<open>verifyOtp\<close> is given, the record it selects, and so the record it can
  accept, is another one. OTP ids are unique in the store and \<open>generateId\<close> does not
  return an id already in use.
\<close>

theorem verifyOtp_single_use:
  assumes ids: "distinct (map o_id (otps s))"
    and ok: "verifyOtp w ident otpCode s = (s1, Inr response)"
    and fresh: "\<forall>(w', c) \<in> set later. generateId_otp w' \<notin> o_id ` set (otps s)"
  shows "\<exists>u accepted.
           resolveUser ident s = Some u \<and> latestOtp (u_id u) s = Some accepted
           \<and> accepted \<in> set (otps s) \<and> \<not> o_verified accepted \<and> o_code accepted = otpCode
           \<and> (\<forall>r \<in> set (otps (run later s1)). o_id r = o_id accepted \<longrightarrow> o_verified r)
           \<and> (\<forall>userId r. latestOtp userId (run later s1) = Some r \<longrightarrow> o_id r \<noteq> o_id accepted)
           \<and> (\<forall>w2 ident2 code2 s2 response2.
                 verifyOtp w2 ident2 code2 (run later s1) = (s2, Inr response2) \<longrightarrow>
                 (\<exists>u2 chosen. resolveUser ident2 (run later s1) = Some u2
                    \<and> latestOtp (u_id u2) (run later s1) = Some chosen
                    \<and> o_code chosen = code2 \<and> o_id chosen \<noteq> o_id accepted))"
proof -
  from verifyOtp_success [OF ok] obtain u accepted where
    u: "resolveUser ident s = Some u" and l: "latestOtp (u_id u) s = Some accepted"
    and c: "o_code accepted = otpCode"
    and upd: "otps s1 = db_update o_id (o_id accepted) (\<lambda>r. r\<lparr>o_verified := True\<rparr>) (otps s)"
    by blast
  have mem: "accepted \<in> set (otps s)" and unv: "\<not> o_verified accepted"
    using latestOtp_props [OF l] by simp_all
  have "otps s1 = map (\<lambda>r. if o_id r = o_id accepted then r\<lparr>o_verified := True\<rparr> else r) (otps s)"
    unfolding upd using ids by (rule db_update_distinct)
  then have spent1: "\<forall>r \<in> set (otps s1). o_id r = o_id accepted \<longrightarrow> o_verified r"
    by auto
  have fresh': "\<forall>(w', c) \<in> set later. generateId_otp w' \<noteq> o_id accepted"
    using fresh mem by auto
  have spent: "\<forall>r \<in> set (otps (run later s1)). o_id r = o_id accepted \<longrightarrow> o_verified r"
    using run_keeps_verified [OF spent1 fresh'] .
  have never: "\<forall>userId r. latestOtp userId (run later s1) = Some r \<longrightarrow> o_id r \<noteq> o_id accepted"
    using spent latestOtp_props by blast
  have again: "\<forall>w2 ident2 code2 s2 response2.
                 verifyOtp w2 ident2 code2 (run later s1) = (s2, Inr response2) \<longrightarrow>
                 (\<exists>u2 chosen. resolveUser ident2 (run later s1) = Some u2
                    \<and> latestOtp (u_id u2) (run later s1) = Some chosen
                    \<and> o_code chosen = code2 \<and> o_id chosen \<noteq> o_id accepted)"
  proof (intro allI impI)
    fix w2 ident2 code2 s2 response2
    assume "verifyOtp w2 ident2 code2 (run later s1) = (s2, Inr response2)"
    from verifyOtp_success [OF this] obtain u2 chosen where
      "resolveUser ident2 (run later s1) = Some u2"
      "latestOtp (u_id u2) (run later s1) = Some chosen" "o_code chosen = code2"
      by blast
    then show "\<exists>u2 chosen. resolveUser ident2 (run later s1) = Some u2
                    \<and> latestOtp (u_id u2) (run later s1) = Some chosen
                    \<and> o_code chosen = code2 \<and> o_id chosen \<noteq> o_id accepted"
      using never by blast
  qed
  show ?thesis using u l mem unv c spent never again by blast
qed

text \<open>
  Bob's pending OTP is accepted; he then asks for a new OTP and submits the old code
  again: the record selected then is not the one accepted before.
\<close>

theorem verifyOtp_single_use_witness:
  "distinct (map o_id (otps exampleDb))
   \<and> generateId_otp exampleWorld \<notin> o_id ` set (otps exampleDb)
   \<and> (\<exists>s1 response.
         verifyOtp exampleWorld \<lparr>id_phone = Some ''9876543210'', id_email = None\<rparr> ''123456''
           exampleDb = (s1, Inr response)
         \<and> (\<forall>userId r.
               latestOtp userId
                 (run [(exampleWorld, SendPhoneOtp ''9876543210''),
                       (exampleWorld,
                        VerifyOtp \<lparr>id_phone = Some ''9876543210'', id_email = None\<rparr> ''123456'')]
                    s1) = Some r
               \<longrightarrow> o_id r \<noteq> o_id bobOtp))"
proof -
  let ?ident = "\<lparr>id_phone = Some ''9876543210'', id_email = None\<rparr>"
  let ?later = "[(exampleWorld, SendPhoneOtp ''9876543210''),
                 (exampleWorld, VerifyOtp ?ident ''123456'')]"
  have h1: "distinct (map o_id (otps exampleDb))"
    by (simp add: exampleDb_def bobOtp_def carolOtp_def)
  have f0: "generateId_otp exampleWorld \<notin> o_id ` set (otps exampleDb)"
    by (simp add: exampleDb_def exampleWorld_def bobOtp_def carolOtp_def)
  then have h3: "\<forall>(w', c) \<in> set ?later. generateId_otp w' \<notin> o_id ` set (otps exampleDb)"
    by simp
  have u: "resolveUser ?ident exampleDb = Some bob"
    by (simp add: resolveUser_def truthy_def db_findOne_def exampleDb_def alice_def bob_def)
  have l: "latestOtp (u_id bob) exampleDb = Some bobOtp"
    by (simp add: latestOtp_def unverifiedOtps_def db_findWhere_def exampleDb_def bob_def
          bobOtp_def carolOtp_def)
  have live: "\<not> isOtpExpired (now exampleWorld) (Some (o_expiresAt bobOtp))"
    "\<not> o_attempts bobOtp \<ge> 3" "o_code bobOtp = ''123456''"
    by (simp_all add: isOtpExpired_def exampleWorld_def bobOtp_def)
  obtain s1 response where
    h2: "verifyOtp exampleWorld ?ident ''123456'' exampleDb = (s1, Inr response)"
    using u l live by (simp add: verifyOtp_def Let_def)
  from verifyOtp_single_use [OF h1 h2 h3] u l
  have "\<forall>userId r. latestOtp userId (run ?later s1) = Some r \<longrightarrow> o_id r \<noteq> o_id bobOtp"
    by auto
  then show ?thesis using h1 f0 h2 by blast
qed

section \<open>Registration\<close>

text \<open>
  C5: when a user with the email exists, \<open>registerWithEmail\<close> fails with Conflict and
  returns the store unchanged; when none exists (and the drawn user id is not yet the
  owner of a provider profile), it succeeds with the token pair minted for the new user
  and \<open>hasProvider\<close> false.
\<close>

theorem registerWithEmail_conflict_atomic:
  "((\<exists>u \<in> set (users s). u_email u = Some email) \<longrightarrow>
       registerWithEmail w email password s
         = (s, Inl (ConflictError ''Email already registered''))
       \<and> statusCode (ConflictError ''Email already registered'') = 409)
   \<and> ((\<forall>u \<in> set (users s). u_email u \<noteq> Some email)
        \<and> (\<forall>p \<in> set (providers s). p_userId p \<noteq> generateId_user w) \<longrightarrow>
       (\<exists>s1 r. registerWithEmail w email password s = (s1, Inr r)
          \<and> tokens r = generateTokenPair w (generateId_user w) PROVIDER
          \<and> user r = \<lparr>au_id = generateId_user w, au_email = Some email, au_role = PROVIDER,
                       au_phoneNumber = None, au_isVerified = False\<rparr>
          \<and> hasProvider r = False
          \<and> length (users s1) = length (users s) + 1))"
proof (intro conjI impI)
  assume "\<exists>u \<in> set (users s). u_email u = Some email"
  then have "db_findOne (\<lambda>u. u_email u = Some email) (users s) \<noteq> None"
    by (simp add: db_findOne_None_iff)
  then show "registerWithEmail w email password s
         = (s, Inl (ConflictError ''Email already registered''))"
    by (auto simp: registerWithEmail_def)
next
  show "statusCode (ConflictError ''Email already registered'') = 409"
    by (simp add: ConflictError_def)
next
  assume a: "(\<forall>u \<in> set (users s). u_email u \<noteq> Some email)
        \<and> (\<forall>p \<in> set (providers s). p_userId p \<noteq> generateId_user w)"
  then have n: "db_findOne (\<lambda>u. u_email u = Some email) (users s) = None"
    by (simp add: db_findOne_None_iff)
  have p: "db_findOne (\<lambda>p. p_userId p = generateId_user w) (providers s) = None"
    using a by (simp add: db_findOne_None_iff)
  show "\<exists>s1 r. registerWithEmail w email password s = (s1, Inr r)
          \<and> tokens r = generateTokenPair w (generateId_user w) PROVIDER
          \<and> user r = \<lparr>au_id = generateId_user w, au_email = Some email, au_role = PROVIDER,
                       au_phoneNumber = None, au_isVerified = False\<rparr>
          \<and> hasProvider r = False
          \<and> length (users s1) = length (users s) + 1"
    using n p
    by (simp add: registerWithEmail_def Let_def createSession_def sendEmailOtp_def
          db_create_def authUser_def)
qed

theorem registerWithEmail_conflict_atomic_witness:
  "(\<exists>u \<in> set (users exampleDb). u_email u = Some ''a@b.com'')
   \<and> registerWithEmail exampleWorld ''a@b.com'' ''Secure123'' exampleDb
       = (exampleDb, Inl (ConflictError ''Email already registered''))
   \<and> \<not> (\<exists>u \<in> set (users exampleDb). u_email u = Some ''new@b.com'')
   \<and> \<not> (\<exists>p \<in> set (providers exampleDb). p_userId p = generateId_user exampleWorld)
   \<and> (\<exists>s1 r. registerWithEmail exampleWorld ''new@b.com'' ''Secure123'' exampleDb = (s1, Inr r)
          \<and> tokens r = generateTokenPair exampleWorld (generateId_user exampleWorld) PROVIDER
          \<and> hasProvider r = False
          \<and> length (users s1) = length (users exampleDb) + 1)"
proof -
  have h1: "\<exists>u \<in> set (users exampleDb). u_email u = Some ''a@b.com''"
    by (simp add: exampleDb_def alice_def)
  have h2: "\<forall>u \<in> set (users exampleDb). u_email u \<noteq> Some ''new@b.com''"
    by (simp add: exampleDb_def alice_def bob_def carol_def)
  have h3: "\<forall>p \<in> set (providers exampleDb). p_userId p \<noteq> generateId_user exampleWorld"
    by (simp add: exampleDb_def exampleWorld_def)
  show ?thesis
    using registerWithEmail_conflict_atomic
            [where s = exampleDb and w = exampleWorld and email = "''a@b.com''"
               and password = "''Secure123''"]
          registerWithEmail_conflict_atomic
            [where s = exampleDb and w = exampleWorld and email = "''new@b.com''"
               and password = "''Secure123''"]
          h1 h2 h3
    by blast
qed

section \<open>Refreshing tokens\<close>

text \<open>
  C6, as the code has it: when the token verifies and the session found for it is past
  its own expiry, \<open>refreshToken\<close> removes that session from the store, keeps every other
  session, and fails with Unauthorized. When the token does not verify, the call fails
  with Unauthorized whatever the store holds and returns the store as it was: no session
  is looked up, none is deleted.
\<close>

theorem refreshToken_expired_session_deleted:
  "(verifyRefreshToken w tok = Some decoded
      \<and> db_findOne (\<lambda>x. s_refreshToken x = tok) (sessions s) = Some session
      \<and> s_expiresAt session < now w
      \<and> distinct (map s_id (sessions s)) \<longrightarrow>
        refreshToken w tok s
          = (s\<lparr>sessions := filter (\<lambda>x. x \<noteq> session) (sessions s)\<rparr>,
             Inl (UnauthorizedError ''Session expired. Please login again.''))
        \<and> statusCode (UnauthorizedError ''Session expired. Please login again.'') = 401
        \<and> session \<in> set (sessions s)
        \<and> session \<notin> set (sessions (fst (refreshToken w tok s))))
   \<and> (verifyRefreshToken w tok = None \<longrightarrow>
        refreshToken w tok s = (s, Inl (UnauthorizedError ''Invalid refresh token''))
        \<and> statusCode (UnauthorizedError ''Invalid refresh token'') = 401)"
proof (intro conjI impI)
  assume a: "verifyRefreshToken w tok = Some decoded
      \<and> db_findOne (\<lambda>x. s_refreshToken x = tok) (sessions s) = Some session
      \<and> s_expiresAt session < now w
      \<and> distinct (map s_id (sessions s))"
  then have ids: "distinct (map s_id (sessions s))" by simp
  have found: "db_findOne (\<lambda>x. s_refreshToken x = tok) (sessions s) = Some session"
    using a by simp
  have mem: "session \<in> set (sessions s)"
    using db_findOne_SomeD [OF found] by simp
  have "filter (\<lambda>r. s_id r \<noteq> s_id session) (sessions s)
          = filter (\<lambda>x. x \<noteq> session) (sessions s)"
    using same_id_same_record [OF ids _ mem] by (intro filter_cong) auto
  then have del: "db_delete s_id (s_id session) (sessions s)
                    = filter (\<lambda>x. x \<noteq> session) (sessions s)"
    using db_delete_distinct [OF ids] by simp
  show "refreshToken w tok s
          = (s\<lparr>sessions := filter (\<lambda>x. x \<noteq> session) (sessions s)\<rparr>,
             Inl (UnauthorizedError ''Session expired. Please login again.''))"
    using a by (simp add: refreshToken_def del)
  then show "session \<notin> set (sessions (fst (refreshToken w tok s)))" by simp
  show "session \<in> set (sessions s)" by (rule mem)
  show "statusCode (UnauthorizedError ''Session expired. Please login again.'') = 401"
    by (simp add: UnauthorizedError_def)
next
  assume "verifyRefreshToken w tok = None"
  then show "refreshToken w tok s = (s, Inl (UnauthorizedError ''Invalid refresh token''))"
    by (simp add: refreshToken_def)
next
  show "statusCode (UnauthorizedError ''Invalid refresh token'') = 401"
    by (simp add: UnauthorizedError_def)
qed

text \<open>
  Under a lifetime that lets Alice's older token still verify, her stale session is
  deleted and the live one kept; under the default lifetime the token does not verify and
  the call fails without touching the store.
\<close>

theorem refreshToken_expired_session_deleted_witness:
  "verifyRefreshToken lenientWorld ''v0.refresh.user-1''
     = Some \<lparr>jp_userId = ''user-1'', jp_role = PROVIDER\<rparr>
   \<and> db_findOne (\<lambda>x. s_refreshToken x = ''v0.refresh.user-1'') (sessions exampleDb)
       = Some staleSession
   \<and> s_expiresAt staleSession < now lenientWorld
   \<and> distinct (map s_id (sessions exampleDb))
   \<and> refreshToken lenientWorld ''v0.refresh.user-1'' exampleDb
       = (exampleDb\<lparr>sessions := [liveSession]\<rparr>,
          Inl (UnauthorizedError ''Session expired. Please login again.''))
   \<and> verifyRefreshToken exampleWorld ''forged'' = None
   \<and> refreshToken exampleWorld ''forged'' exampleDb
       = (exampleDb, Inl (UnauthorizedError ''Invalid refresh token''))"
proof -
  have h1: "verifyRefreshToken lenientWorld ''v0.refresh.user-1''
     = Some \<lparr>jp_userId = ''user-1'', jp_role = PROVIDER\<rparr>"
    by (simp add: lenientWorld_def)
  have h2: "db_findOne (\<lambda>x. s_refreshToken x = ''v0.refresh.user-1'') (sessions exampleDb)
       = Some staleSession"
    by (simp add: db_findOne_def exampleDb_def staleSession_def)
  have h3: "s_expiresAt staleSession < now lenientWorld"
    by (simp add: staleSession_def lenientWorld_def exampleWorld_def)
  have h4: "distinct (map s_id (sessions exampleDb))"
    by (simp add: exampleDb_def staleSession_def liveSession_def)
  have h5: "verifyRefreshToken exampleWorld ''forged'' = None"
    by (simp add: exampleWorld_def)
  have f: "filter (\<lambda>x. x \<noteq> staleSession) (sessions exampleDb) = [liveSession]"
    by (simp add: exampleDb_def staleSession_def liveSession_def)
  show ?thesis
    using refreshToken_expired_session_deleted
            [where w = lenientWorld and tok = "''v0.refresh.user-1''" and s = exampleDb
               and session = staleSession
               and decoded = "\<lparr>jp_userId = ''user-1'', jp_role = PROVIDER\<rparr>"]
          refreshToken_expired_session_deleted
            [where w = exampleWorld and tok = "''forged''" and s = exampleDb]
          h1 h2 h3 h4 h5 f
    by simp
qed

text \<open>
  A token that matches a stored session past its expiry, and yet no deletion: Alice's
  older token has run out as a token too, the call fails at the verification and her
  stale session stays.
\<close>

theorem refreshToken_expired_session_counterexample:
  "s_refreshToken staleSession = ''v0.refresh.user-1''
   \<and> s_expiresAt staleSession < now exampleWorld
   \<and> sessions exampleDb = [staleSession, liveSession]
   \<and> refreshToken exampleWorld ''v0.refresh.user-1'' exampleDb
       = (exampleDb, Inl \<lparr>message = ''Invalid refresh token'', statusCode = 401,
                           code = ''UNAUTHORIZED''\<rparr>)"
  by (simp add: refreshToken_def exampleWorld_def exampleDb_def staleSession_def
        UnauthorizedError_def)















section \<open>The portfolio cap\<close>

lemma show_int_10: "show_int 10 = ''10''"
  by (simp add: show_int_def show_nat.simps)

text \<open>
  C9: for a user with a provider profile, \<open>PortfolioService.create\<close> fails with BadRequest
  "Maximum 10 portfolio items allowed" and leaves the store unchanged when the profile has
  10 or more items; below that it appends one item whose \<open>displayOrder\<close> is the number of
  items the profile had. A store in which no provider has more than 10 items stays so.
\<close>

theorem PortfolioService_create_cap:
  "(getProviderByUserId userId s = Inr provider
      \<and> db_count (\<lambda>item. pi_providerId item = p_id provider) (portfolios s) \<ge> 10 \<longrightarrow>
        PortfolioService_create w userId input s
          = (s, Inl (BadRequestError ''Maximum 10 portfolio items allowed''))
        \<and> statusCode (BadRequestError ''Maximum 10 portfolio items allowed'') = 400)
   \<and> (getProviderByUserId userId s = Inr provider
      \<and> db_count (\<lambda>item. pi_providerId item = p_id provider) (portfolios s) < 10 \<longrightarrow>
        (\<exists>item. PortfolioService_create w userId input s
                   = (s\<lparr>portfolios := portfolios s @ [item]\<rparr>, Inr item)
           \<and> pi_providerId item = p_id provider
           \<and> pi_displayOrder item
               = db_count (\<lambda>item. pi_providerId item = p_id provider) (portfolios s)))
   \<and> ((\<forall>providerId. db_count (\<lambda>item. pi_providerId item = providerId) (portfolios s) \<le> 10)
        \<longrightarrow>
        (\<forall>providerId.
           db_count (\<lambda>item. pi_providerId item = providerId)
             (portfolios (fst (PortfolioService_create w userId input s))) \<le> 10))"
proof (intro conjI impI allI)
  assume "getProviderByUserId userId s = Inr provider
      \<and> db_count (\<lambda>item. pi_providerId item = p_id provider) (portfolios s) \<ge> 10"
  then show "PortfolioService_create w userId input s
          = (s, Inl (BadRequestError ''Maximum 10 portfolio items allowed''))"
    by (simp add: PortfolioService_create_def Let_def show_int_10 MAX_PORTFOLIO_ITEMS_def)
next
  show "statusCode (BadRequestError ''Maximum 10 portfolio items allowed'') = 400"
    by (simp add: BadRequestError_def)
next
  assume "getProviderByUserId userId s = Inr provider
      \<and> db_count (\<lambda>item. pi_providerId item = p_id provider) (portfolios s) < 10"
  then show "\<exists>item. PortfolioService_create w userId input s
                   = (s\<lparr>portfolios := portfolios s @ [item]\<rparr>, Inr item)
           \<and> pi_providerId item = p_id provider
           \<and> pi_displayOrder item
               = db_count (\<lambda>item. pi_providerId item = p_id provider) (portfolios s)"
    by (simp add: PortfolioService_create_def Let_def MAX_PORTFOLIO_ITEMS_def db_create_def)
next
  fix providerId
  assume inv: "\<forall>providerId. db_count (\<lambda>item. pi_providerId item = providerId) (portfolios s) \<le> 10"
  show "db_count (\<lambda>item. pi_providerId item = providerId)
             (portfolios (fst (PortfolioService_create w userId input s))) \<le> 10"
  proof (cases "getProviderByUserId userId s")
    case (Inl e)
    then show ?thesis using inv by (simp add: PortfolioService_create_def)
  next
    case (Inr p)
    show ?thesis
    proof (cases "db_count (\<lambda>item. pi_providerId item = p_id p) (portfolios s) \<ge> 10")
      case True
      then show ?thesis using Inr inv
        by (simp add: PortfolioService_create_def Let_def MAX_PORTFOLIO_ITEMS_def)
    next
      case False
      then show ?thesis using Inr inv [rule_format, of providerId]
        by (auto simp: PortfolioService_create_def Let_def MAX_PORTFOLIO_ITEMS_def
              db_create_def db_count_def)
    qed
  qed
qed

lemma getProvider_alice:
  "getProviderByUserId ''user-1'' exampleDb = Inr \<lparr>p_id = ''prov-1'', p_userId = ''user-1''\<rparr>"
  by (simp add: getProviderByUserId_def db_findOne_def exampleDb_def)

lemma getProvider_bob:
  "getProviderByUserId ''user-2'' exampleDb = Inr \<lparr>p_id = ''prov-2'', p_userId = ''user-2''\<rparr>"
  by (simp add: getProviderByUserId_def db_findOne_def exampleDb_def)

lemma count_alice:
  "db_count (\<lambda>item. pi_providerId item = ''prov-1'') (portfolios exampleDb) = 10"
  by (simp add: db_count_def exampleDb_def exampleItem_def)

lemma count_bob:
  "db_count (\<lambda>item. pi_providerId item = ''prov-2'') (portfolios exampleDb) = 2"
  by (simp add: db_count_def exampleDb_def exampleItem_def)

theorem PortfolioService_create_cap_witness:
  "getProviderByUserId ''user-1'' exampleDb = Inr \<lparr>p_id = ''prov-1'', p_userId = ''user-1''\<rparr>
   \<and> db_count (\<lambda>item. pi_providerId item = ''prov-1'') (portfolios exampleDb) \<ge> 10
   \<and> PortfolioService_create exampleWorld ''user-1''
        \<lparr>in_title = ''Teak table'', in_category = None, in_imgUrl = ''https://img.example/t'',
         in_description = None\<rparr> exampleDb
       = (exampleDb, Inl (BadRequestError ''Maximum 10 portfolio items allowed''))
   \<and> getProviderByUserId ''user-2'' exampleDb = Inr \<lparr>p_id = ''prov-2'', p_userId = ''user-2''\<rparr>
   \<and> db_count (\<lambda>item. pi_providerId item = ''prov-2'') (portfolios exampleDb) < 10
   \<and> (\<exists>item. PortfolioService_create exampleWorld ''user-2''
                 \<lparr>in_title = ''Teak table'', in_category = None,
                  in_imgUrl = ''https://img.example/t'', in_description = None\<rparr> exampleDb
               = (exampleDb\<lparr>portfolios := portfolios exampleDb @ [item]\<rparr>, Inr item)
         \<and> pi_displayOrder item = 2)"
proof -
  let ?input = "\<lparr>in_title = ''Teak table'', in_category = None,
                  in_imgUrl = ''https://img.example/t'', in_description = None\<rparr>"
  have full: "db_count (\<lambda>item. pi_providerId item = ''prov-1'') (portfolios exampleDb) \<ge> 10"
    and room: "db_count (\<lambda>item. pi_providerId item = ''prov-2'') (portfolios exampleDb) < 10"
    by (simp_all add: count_alice count_bob)
  have a: "PortfolioService_create exampleWorld ''user-1'' ?input exampleDb
             = (exampleDb, Inl (BadRequestError ''Maximum 10 portfolio items allowed''))"
    using PortfolioService_create_cap
            [where userId = "''user-1''" and s = exampleDb and w = exampleWorld
               and input = ?input and provider = "\<lparr>p_id = ''prov-1'', p_userId = ''user-1''\<rparr>"]
          getProvider_alice full
    by simp
  have b: "\<exists>item. PortfolioService_create exampleWorld ''user-2'' ?input exampleDb
               = (exampleDb\<lparr>portfolios := portfolios exampleDb @ [item]\<rparr>, Inr item)
         \<and> pi_displayOrder item = 2"
    using PortfolioService_create_cap
            [where userId = "''user-2''" and s = exampleDb and w = exampleWorld
               and input = ?input and provider = "\<lparr>p_id = ''prov-2'', p_userId = ''user-2''\<rparr>"]
          getProvider_bob room count_bob
    by (simp, blast)
  show ?thesis using getProvider_alice getProvider_bob full room a b by blast
qed

section \<open>The rate limiter of the authentication routes\<close>

lemma ceil_div_bounds:
  "0 < d \<Longrightarrow> d \<le> 900000 \<Longrightarrow> 1 \<le> ceil_div d 1000 \<and> ceil_div d 1000 \<le> 900"
  unfolding ceil_div_def by linarith

lemma ceil_div_window:
  assumes "0 \<le> d" and "d \<le> 900000"
  shows "0 \<le> ceil_div d 1000 \<and> ceil_div d 1000 \<le> 900 \<and> (1 \<le> ceil_div d 1000) = (0 < d)"
proof (cases "d = 0")
  case True
  then show ?thesis by (simp add: ceil_div_def)
next
  case False
  then have "0 < d" using assms(1) by simp
  then show ?thesis using ceil_div_bounds [of d] assms(2) by simp
qed

lemma authRateLimiter_start:
  assumes "case store (''auth:'' @ ip) of None \<Rightarrow> True | Some e \<Rightarrow> rl_resetTime e < t"
  shows "authRateLimiter ip t store =
           (store(''auth:'' @ ip \<mapsto> \<lparr>rl_count = 1, rl_resetTime = t + 900000\<rparr>),
            \<lparr>X_RateLimit_Limit = 10, X_RateLimit_Remaining = 9,
             X_RateLimit_Reset = ceil_div (t + 900000) 1000, Retry_After = None\<rparr>,
            Inr ())"
  using assms by (auto simp: authRateLimiter_def Let_def split: option.splits)

lemma authRateLimiter_in_window:
  assumes "store (''auth:'' @ ip) = Some e" and "\<not> rl_resetTime e < t"
  shows "authRateLimiter ip t store =
           (store(''auth:'' @ ip \<mapsto> e\<lparr>rl_count := rl_count e + 1\<rparr>),
            \<lparr>X_RateLimit_Limit = 10,
             X_RateLimit_Remaining = max 0 (10 - (rl_count e + 1)),
             X_RateLimit_Reset = ceil_div (rl_resetTime e) 1000,
             Retry_After = (if rl_count e + 1 > 10
                            then Some (ceil_div (rl_resetTime e - t) 1000) else None)\<rparr>,
            if rl_count e + 1 > 10
            then Inl (RateLimitError
                        (''Too many login attempts. Please try again in ''
                           @ show_int (ceil_div (ceil_div (rl_resetTime e - t) 1000) 60)
                           @ '' minutes.''))
            else Inr ())"
  using assms by (simp add: authRateLimiter_def Let_def)

lemma authRequests_in_window:
  assumes "store (''auth:'' @ ip) = Some e"
    and "\<forall>t \<in> set ts. \<not> rl_resetTime e < t"
    and "i < length ts"
  shows "snd (authRequests ip ts store ! i) =
           (if rl_count e + int i + 1 > 10
            then Inl (RateLimitError
                        (''Too many login attempts. Please try again in ''
                           @ show_int (ceil_div (ceil_div (rl_resetTime e - ts ! i) 1000) 60)
                           @ '' minutes.''))
            else Inr ())
         \<and> Retry_After (fst (authRequests ip ts store ! i)) =
           (if rl_count e + int i + 1 > 10
            then Some (ceil_div (rl_resetTime e - ts ! i) 1000) else None)"
  using assms
proof (induction ts arbitrary: store e i)
  case Nil
  then show ?case by simp
next
  case (Cons t ts)
  have step: "authRateLimiter ip t store =
           (store(''auth:'' @ ip \<mapsto> e\<lparr>rl_count := rl_count e + 1\<rparr>),
            \<lparr>X_RateLimit_Limit = 10,
             X_RateLimit_Remaining = max 0 (10 - (rl_count e + 1)),
             X_RateLimit_Reset = ceil_div (rl_resetTime e) 1000,
             Retry_After = (if rl_count e + 1 > 10
                            then Some (ceil_div (rl_resetTime e - t) 1000) else None)\<rparr>,
            if rl_count e + 1 > 10
            then Inl (RateLimitError
                        (''Too many login attempts. Please try again in ''
                           @ show_int (ceil_div (ceil_div (rl_resetTime e - t) 1000) 60)
                           @ '' minutes.''))
            else Inr ())"
    using Cons.prems by (intro authRateLimiter_in_window) auto
  show ?case
  proof (cases i)
    case 0
    then show ?thesis by (simp add: step)
  next
    case (Suc j)
    let ?store1 = "store(''auth:'' @ ip \<mapsto> e\<lparr>rl_count := rl_count e + 1\<rparr>)"
    let ?e1 = "e\<lparr>rl_count := rl_count e + 1\<rparr>"
    have a: "?store1 (''auth:'' @ ip) = Some ?e1" by simp
    have b: "\<forall>t \<in> set ts. \<not> rl_resetTime ?e1 < t" using Cons.prems by simp
    have c: "j < length ts" using Cons.prems Suc by simp
    have eq: "authRequests ip (t # ts) store ! i = authRequests ip ts ?store1 ! j"
      using Suc by (simp add: step)
    have n: "(t # ts) ! i = ts ! j" using Suc by simp
    have k: "rl_count ?e1 + int j + 1 = rl_count e + int i + 1" using Suc by simp
    have r: "rl_resetTime ?e1 = rl_resetTime e" by simp
    from Cons.IH [where store = ?store1 and e = ?e1 and i = j, OF a b c]
    show ?thesis unfolding eq n k r .
  qed
qed

text \<open>
  A request of another client leaves the entry of this client alone, and the limiter's
  answer to a client depends on the store through that client's entry only: requests of
  other clients in between change nothing for this one.
\<close>

lemma authRateLimiter_other_ip:
  "ip' \<noteq> ip \<Longrightarrow>
     fst (authRateLimiter ip' t store) (''auth:'' @ ip) = store (''auth:'' @ ip)"
  by (simp add: authRateLimiter_def Let_def)

lemma authRateLimiter_depends_on_own_entry:
  "store (''auth:'' @ ip) = store' (''auth:'' @ ip) \<Longrightarrow>
     snd (authRateLimiter ip t store) = snd (authRateLimiter ip t store')
     \<and> fst (authRateLimiter ip t store) (''auth:'' @ ip)
         = fst (authRateLimiter ip t store') (''auth:'' @ ip)"
  by (simp add: authRateLimiter_def Let_def)

text \<open>
  The window is closed at its end: a request at the very instant \<open>resetTime\<close> is still
  counted in the old window, and when it is over the limit its \<open>Retry-After\<close> is 0.
\<close>

lemma authRateLimiter_at_reset_instant:
  assumes "store (''auth:'' @ ip) = Some e" and "rl_count e \<ge> 10"
  shows "Retry_After (fst (snd (authRateLimiter ip (rl_resetTime e) store))) = Some 0"
  using assms authRateLimiter_in_window [of store ip e "rl_resetTime e"]
  by (simp add: ceil_div_def)

text \<open>
  C7, as the code has it: a request that starts a window (no record for the key
  \<open>auth:<ip>\<close>, or one whose window has elapsed) and ten more requests of the same IP
  inside that window, which the limiter keeps open up to and including its reset time
  15 minutes later: the first ten are let through, the eleventh is rejected with the
  rate-limit error (429), and its \<open>Retry-After\<close> is an integer from 0 to 900, positive
  exactly when the eleventh request comes before the reset time.
\<close>

theorem authRateLimiter_eleventh_rejected:
  assumes fresh: "case store (''auth:'' @ ip) of None \<Rightarrow> True | Some e \<Rightarrow> rl_resetTime e < t1"
    and len: "length ts = 10"
    and window: "\<forall>t \<in> set ts. t1 \<le> t \<and> t \<le> t1 + 15 * 60 * 1000"
  shows "(\<forall>i < 10. snd (authRequests ip (t1 # ts) store ! i) = Inr ())
       \<and> (\<exists>retryAfter msg.
             snd (authRequests ip (t1 # ts) store ! 10) = Inl (RateLimitError msg)
             \<and> statusCode (RateLimitError msg) = 429
             \<and> Retry_After (fst (authRequests ip (t1 # ts) store ! 10)) = Some retryAfter
             \<and> 0 \<le> retryAfter \<and> retryAfter \<le> 900
             \<and> (1 \<le> retryAfter) = (ts ! 9 < t1 + 15 * 60 * 1000))"
proof -
  let ?e0 = "\<lparr>rl_count = 1, rl_resetTime = t1 + 900000\<rparr>"
  let ?store1 = "store(''auth:'' @ ip \<mapsto> ?e0)"
  let ?rest = "authRequests ip ts ?store1"
  have first: "authRequests ip (t1 # ts) store =
      (\<lparr>X_RateLimit_Limit = 10, X_RateLimit_Remaining = 9,
        X_RateLimit_Reset = ceil_div (t1 + 900000) 1000, Retry_After = None\<rparr>, Inr ()) # ?rest"
    using authRateLimiter_start [where store = store and ip = ip and t = t1, OF fresh] by simp
  have a: "?store1 (''auth:'' @ ip) = Some ?e0" by simp
  have b: "\<forall>t \<in> set ts. \<not> rl_resetTime ?e0 < t" using window by auto
  have later: "j < 10 \<Longrightarrow>
      snd (?rest ! j) =
           (if rl_count ?e0 + int j + 1 > 10
            then Inl (RateLimitError
                        (''Too many login attempts. Please try again in ''
                           @ show_int (ceil_div (ceil_div (rl_resetTime ?e0 - ts ! j) 1000) 60)
                           @ '' minutes.''))
            else Inr ())
         \<and> Retry_After (fst (?rest ! j)) =
           (if rl_count ?e0 + int j + 1 > 10
            then Some (ceil_div (rl_resetTime ?e0 - ts ! j) 1000) else None)" for j
    using authRequests_in_window [where store = ?store1 and e = ?e0 and i = j and ts = ts, OF a b]
      len by simp
  have allowed: "\<forall>i < 10. snd (authRequests ip (t1 # ts) store ! i) = Inr ()"
  proof (intro allI impI)
    fix i :: nat assume i: "i < 10"
    show "snd (authRequests ip (t1 # ts) store ! i) = Inr ()"
    proof (cases i)
      case 0
      then show ?thesis by (simp add: first del: authRequests.simps)
    next
      case (Suc j)
      then have "j < 9" using i by simp
      then show ?thesis using later [of j] Suc by (simp add: first del: authRequests.simps)
    qed
  qed
  have t10: "ts ! 9 \<in> set ts" using len by simp
  then have d: "0 \<le> t1 + 900000 - ts ! 9" "t1 + 900000 - ts ! 9 \<le> 900000"
    using window by auto
  have pos: "(0 < t1 + 900000 - ts ! 9) = (ts ! 9 < t1 + 15 * 60 * 1000)" by auto
  have tenth: "authRequests ip (t1 # ts) store ! 10 = ?rest ! 9"
    by (simp add: first del: authRequests.simps)
  have rejected: "snd (?rest ! 9) = Inl (RateLimitError
                        (''Too many login attempts. Please try again in ''
                           @ show_int (ceil_div (ceil_div (t1 + 900000 - ts ! 9) 1000) 60)
                           @ '' minutes.''))"
      and retry: "Retry_After (fst (?rest ! 9)) = Some (ceil_div (t1 + 900000 - ts ! 9) 1000)"
    using later [of 9] by simp_all
  have code429: "statusCode (RateLimitError m) = 429" for m
    by (simp add: RateLimitError_def)
  show ?thesis
    using allowed rejected retry ceil_div_window [OF d] code429 unfolding tenth pos by blast
qed

text \<open>
  Eleven requests of one client on an empty store, the last one a millisecond before the
  reset time: ten pass, the eleventh is told to retry after a positive number of seconds.
\<close>

theorem authRateLimiter_eleventh_rejected_witness:
  "(case Map.empty (''auth:'' @ ''203.0.113.7'') of None \<Rightarrow> True
    | Some e \<Rightarrow> rl_resetTime e < 5000)
   \<and> length [5000, 6000, 7000, 8000, 9000, 10000, 11000, 12000, 13000, 904999 :: int] = 10
   \<and> list_all (\<lambda>t. 5000 \<le> t \<and> t \<le> 5000 + 15 * 60 * 1000)
        [5000, 6000, 7000, 8000, 9000, 10000, 11000, 12000, 13000, 904999 :: int]
   \<and> snd (authRequests ''203.0.113.7''
          (5000 # [5000, 6000, 7000, 8000, 9000, 10000, 11000, 12000, 13000, 904999])
          Map.empty ! 0) = Inr ()
   \<and> snd (authRequests ''203.0.113.7''
          (5000 # [5000, 6000, 7000, 8000, 9000, 10000, 11000, 12000, 13000, 904999])
          Map.empty ! 9) = Inr ()
   \<and> (\<exists>retryAfter msg.
         snd (authRequests ''203.0.113.7''
          (5000 # [5000, 6000, 7000, 8000, 9000, 10000, 11000, 12000, 13000, 904999])
          Map.empty ! 10)
           = Inl (RateLimitError msg)
         \<and> statusCode (RateLimitError msg) = 429
         \<and> Retry_After (fst (authRequests ''203.0.113.7''
          (5000 # [5000, 6000, 7000, 8000, 9000, 10000, 11000, 12000, 13000, 904999])
          Map.empty ! 10))
           = Some retryAfter
         \<and> 1 \<le> retryAfter \<and> retryAfter \<le> 900)"
proof -
  let ?ts = "[5000, 6000, 7000, 8000, 9000, 10000, 11000, 12000, 13000, 904999 :: int]"
  have h1: "case Map.empty (''auth:'' @ ''203.0.113.7'') of None \<Rightarrow> True
            | Some e \<Rightarrow> rl_resetTime e < 5000"
    by simp
  have h2: "length ?ts = 10"
    by simp
  have h3: "\<forall>t \<in> set ?ts. 5000 \<le> t \<and> t \<le> 5000 + 15 * 60 * 1000"
    by simp
  have h3': "list_all (\<lambda>t. 5000 \<le> t \<and> t \<le> 5000 + 15 * 60 * 1000) ?ts"
    by simp
  have before: "?ts ! 9 < 5000 + 15 * 60 * 1000" by simp
  have two: "(0::nat) < 10" "(9::nat) < 10" by simp_all
  from authRateLimiter_eleventh_rejected [where store = Map.empty and ip = "''203.0.113.7''"
      and ?t1.0 = 5000 and ts = ?ts, OF h1 h2 h3] h1 h2 h3' two before
  show ?thesis by blast
qed

text \<open>
  The same eleven requests with the last one at the reset time itself, 15 minutes after
  the first: the limiter still counts it in the window and rejects it, and its
  \<open>Retry-After\<close> is 0, not a positive number.
\<close>

theorem authRateLimiter_retry_after_counterexample:
  "(905000 :: int) = 5000 + 15 * 60 * 1000
   \<and> authRequests ''203.0.113.7''
        [5000, 5000, 6000, 7000, 8000, 9000, 10000, 11000, 12000, 13000, 905000]
        Map.empty ! 10
     = (\<lparr>X_RateLimit_Limit = 10, X_RateLimit_Remaining = 0, X_RateLimit_Reset = 905,
         Retry_After = Some 0\<rparr>,
        Inl (RateLimitError ''Too many login attempts. Please try again in 0 minutes.''))"
  by (simp add: authRateLimiter_def Let_def ceil_div_def show_int_def show_nat.simps)

end
